theory Spec2Isabelle
  imports Complex_Main "HOL-Library.Sublist"
begin

section \<open>Python values\<close>

text \<open>
  A Python \<open>str\<close> is a sequence of Unicode code points; it is modelled as a list of
  natural numbers.  The helper \<open>asc\<close> turns an ASCII literal into such a list.  Text that
  is not ASCII is written as its code points, with a transliteration beside it.

  The company records are dictionaries with string keys.  The values the collector and
  the parser store in them are strings, integers and \<open>None\<close>.
\<close>

type_synonym ustr = "nat list"

definition asc :: "string \<Rightarrow> ustr" where
  "asc s = map of_char s"

datatype pyval = VNone | VInt int | VStr ustr

type_synonym company = "string \<rightharpoonup> pyval"

text \<open>Truth value of an object, as \<open>if x:\<close> and \<open>not x\<close> test it.\<close>

fun truthy :: "pyval \<Rightarrow> bool" where
  "truthy VNone = False"
| "truthy (VInt n) = (n \<noteq> 0)"
| "truthy (VStr s) = (s \<noteq> [])"

text \<open>\<open>d.get(key, default)\<close> and \<open>d.get(key)\<close>.\<close>

definition dict_get :: "company \<Rightarrow> string \<Rightarrow> pyval \<Rightarrow> pyval" where
  "dict_get d k dflt = (case d k of None \<Rightarrow> dflt | Some v \<Rightarrow> v)"

definition dict_get_none :: "company \<Rightarrow> string \<Rightarrow> pyval" where
  "dict_get_none d k = dict_get d k VNone"

section \<open>Exceptions\<close>

text \<open>
  A raised exception is a value: its class and its message (\<open>str(e)\<close>).  The classes are
  those the program's \<open>except\<close> clauses tell apart; all of them derive from \<open>Exception\<close>.
  A function that can raise returns \<open>exn + 'a\<close>, with \<open>Inl\<close> for the exception.
\<close>

datatype exkind = ValueError | TypeError | AttributeError | OverflowError | OtherError

datatype exn = Exn exkind ustr

definition exn_kind :: "exn \<Rightarrow> exkind" where
  "exn_kind e = (case e of Exn k m \<Rightarrow> k)"

definition exn_message :: "exn \<Rightarrow> ustr" where
  "exn_message e = (case e of Exn k m \<Rightarrow> m)"

section \<open>Character tables of the Python runtime\<close>

text \<open>
  The program relies on the Unicode tables of the Python runtime through \<open>\d\<close>, \<open>\s\<close>,
  \<open>str.isdigit\<close>, \<open>str.strip\<close> and \<open>str.lower\<close>.  The tables for decimal digits and
  white space are those of Unicode 14 (CPython 3.11).

  \<open>nd_zeros\<close> lists the code point of the digit zero of every block of decimal digits
  (general category Nd); each block holds the ten digits in order.
\<close>

definition nd_zeros :: "nat list" where
  "nd_zeros =
    [48, 1632, 1776, 1984, 2406, 2534, 2662, 2790, 2918, 3046, 3174, 3302, 3430, 3558,
     3664, 3792, 3872, 4160, 4240, 6112, 6160, 6470, 6608, 6784, 6800, 6992, 7088, 7232,
     7248, 42528, 43216, 43264, 43472, 43504, 43600, 44016, 65296, 66720, 68912, 69734,
     69872, 69942, 70096, 70384, 70736, 70864, 71248, 71360, 71472, 71904, 72016, 72784,
     73040, 73120, 92768, 92864, 93008, 120782, 120792, 120802, 120812, 120822, 123200,
     123632, 125264, 130032]"

text \<open>The class \<open>\d\<close> of the module \<open>re\<close> on \<open>str\<close> patterns.\<close>

definition re_digit :: "nat \<Rightarrow> bool" where
  "re_digit c = list_ex (\<lambda>z. z \<le> c \<and> c \<le> z + 9) nd_zeros"

text \<open>The value of a decimal digit, as \<open>int\<close> and \<open>float\<close> read it.\<close>

definition digit_value :: "nat \<Rightarrow> nat" where
  "digit_value c =
     (case find (\<lambda>z. z \<le> c \<and> c \<le> z + 9) nd_zeros of None \<Rightarrow> 0 | Some z \<Rightarrow> c - z)"

text \<open>
  \<open>str.isdigit\<close> accepts the decimal digits and the other characters with a digit value
  (superscripts, circled digits and the like).
\<close>

definition other_digit_ranges :: "(nat \<times> nat) list" where
  "other_digit_ranges =
    [(178, 179), (185, 185), (4969, 4977), (6618, 6618), (8304, 8304), (8308, 8313),
     (8320, 8329), (9312, 9320), (9332, 9340), (9352, 9360), (9450, 9450), (9461, 9469),
     (9471, 9471), (10102, 10110), (10112, 10120), (10122, 10130), (68160, 68163),
     (69216, 69224), (69714, 69722), (127232, 127242)]"

definition in_ranges :: "(nat \<times> nat) list \<Rightarrow> nat \<Rightarrow> bool" where
  "in_ranges rs c = list_ex (\<lambda>r. fst r \<le> c \<and> c \<le> snd r) rs"

definition isdigit_char :: "nat \<Rightarrow> bool" where
  "isdigit_char c = (re_digit c \<or> in_ranges other_digit_ranges c)"

text \<open>\<open>s.isdigit()\<close>: every character is a digit and there is at least one.\<close>

definition py_isdigit :: "ustr \<Rightarrow> bool" where
  "py_isdigit s = (s \<noteq> [] \<and> list_all isdigit_char s)"

text \<open>White space: the class \<open>\s\<close>, and what \<open>str.strip\<close> removes.\<close>

definition space_ranges :: "(nat \<times> nat) list" where
  "space_ranges =
    [(9, 13), (28, 32), (133, 133), (160, 160), (5760, 5760), (8192, 8202), (8232, 8233),
     (8239, 8239), (8287, 8287), (12288, 12288)]"

definition re_space :: "nat \<Rightarrow> bool" where
  "re_space c = in_ranges space_ranges c"

text \<open>
  Lower case.  The table covers the Latin letters of ASCII and Latin-1 and the Cyrillic
  capitals U+0400 to U+042F, the alphabets in which the program's keywords and markers are
  written; every other code point is left as it is.  (Python's \<open>str.lower\<close> also maps
  capitals of other scripts.)
\<close>

definition lower_cp :: "nat \<Rightarrow> nat" where
  "lower_cp c =
     (if 65 \<le> c \<and> c \<le> 90 then c + 32
      else if 192 \<le> c \<and> c \<le> 222 \<and> c \<noteq> 215 then c + 32
      else if 1024 \<le> c \<and> c \<le> 1039 then c + 80
      else if 1040 \<le> c \<and> c \<le> 1071 then c + 32
      else c)"

definition py_lower :: "ustr \<Rightarrow> ustr" where
  "py_lower s = map lower_cp s"

section \<open>String operations\<close>

text \<open>\<open>s.startswith(p)\<close>.\<close>

fun startswith :: "ustr \<Rightarrow> ustr \<Rightarrow> bool" where
  "startswith s [] = True"
| "startswith [] (p # ps) = False"
| "startswith (c # s) (p # ps) = (c = p \<and> startswith s ps)"

text \<open>\<open>needle in hay\<close> for two strings: \<open>needle\<close> occurs in \<open>hay\<close> as a substring.\<close>

fun py_in :: "ustr \<Rightarrow> ustr \<Rightarrow> bool" where
  "py_in needle [] = (needle = [])"
| "py_in needle (c # hay) = (startswith (c # hay) needle \<or> py_in needle hay)"

text \<open>\<open>s.strip()\<close>.\<close>

definition py_strip :: "ustr \<Rightarrow> ustr" where
  "py_strip s = rev (dropWhile re_space (rev (dropWhile re_space s)))"

text \<open>\<open>s.replace(old, new)\<close> for a one-character \<open>old\<close>.\<close>

definition replace_char :: "nat \<Rightarrow> ustr \<Rightarrow> ustr \<Rightarrow> ustr" where
  "replace_char old new s = concat (map (\<lambda>c. if c = old then new else [c]) s)"

text \<open>\<open>sep.join(parts)\<close>.\<close>

fun py_join :: "ustr \<Rightarrow> ustr list \<Rightarrow> ustr" where
  "py_join sep [] = []"
| "py_join sep [p] = p"
| "py_join sep (p # q # ps) = p @ sep @ py_join sep (q # ps)"

text \<open>\<open>str(n)\<close> for an integer.\<close>

fun digits_of :: "nat \<Rightarrow> ustr" where
  "digits_of n = (if n < 10 then [48 + n] else digits_of (n div 10) @ [48 + n mod 10])"

declare digits_of.simps [simp del]

definition py_str_int :: "int \<Rightarrow> ustr" where
  "py_str_int n = (if n < 0 then 45 # digits_of (nat (- n)) else digits_of (nat n))"

text \<open>
  \<open>int(s)\<close> for a string: white space around the number is ignored, the rest is decimal
  digits (the callers pass no sign and no underscore).  CPython 3.11 refuses more than
  4300 digits.
\<close>

definition decimal_value :: "ustr \<Rightarrow> nat" where
  "decimal_value ds = foldl (\<lambda>acc c. 10 * acc + digit_value c) 0 ds"

definition py_int_of_str :: "ustr \<Rightarrow> exn + int" where
  "py_int_of_str s =
     (let ds = py_strip s in
      if ds \<noteq> [] \<and> list_all re_digit ds \<and> length ds \<le> 4300
      then Inr (int (decimal_value ds))
      else Inl (Exn ValueError []))"

section \<open>Regular expressions\<close>

text \<open>
  The patterns of the program are values of the type \<open>rx\<close>, and \<open>rx_m\<close> is the
  backtracking matcher of the module \<open>re\<close>: it returns the states in which a match of the
  pattern can end, in the order in which backtracking tries them (the first alternative
  before the second, more repetitions before fewer).  A state is the number of characters
  before the position, the rest of the text, and what group 1 has captured.

  A character class holds its predicate.  A literal under \<open>re.IGNORECASE\<close> is the class
  \<open>lit_ic\<close> of the characters that differ from it by case only.
\<close>

datatype rx =
    Cls "nat \<Rightarrow> bool"
  | Eps
  | Cat rx rx
  | Alt rx rx
  | Rep rx nat "nat option"
  | Grp rx
  | Ahead rx
  | Bol
  | Eol

type_synonym mstate = "nat \<times> ustr \<times> ustr option"

fun rx_size :: "rx \<Rightarrow> nat" where
  "rx_size (Cat a b) = Suc (rx_size a + rx_size b)"
| "rx_size (Alt a b) = Suc (rx_size a + rx_size b)"
| "rx_size (Rep a lo hi) = Suc (rx_size a)"
| "rx_size (Grp a) = Suc (rx_size a)"
| "rx_size (Ahead a) = Suc (rx_size a)"
| "rx_size r = 0"

text \<open>
  \<open>Rep a lo hi\<close> is the greedy \<open>a{lo,hi}\<close> (\<open>hi = None\<close>: no upper bound).  An iteration
  that consumes nothing is not repeated.  \<open>Eol\<close> is \<open>$\<close> without \<open>re.MULTILINE\<close>: the end of
  the text, or the position before a newline that ends the text.
\<close>

function rx_m :: "rx \<Rightarrow> mstate \<Rightarrow> mstate list" where
  "rx_m (Cls p) st =
     (case fst (snd st) of
        [] \<Rightarrow> []
      | c # cs \<Rightarrow> if p c then [(Suc (fst st), cs, snd (snd st))] else [])"
| "rx_m Eps st = [st]"
| "rx_m (Cat a b) st = concat (map (rx_m b) (rx_m a st))"
| "rx_m (Alt a b) st = rx_m a st @ rx_m b st"
| "rx_m (Rep a lo hi) st =
     (if hi = Some 0 then [st]
      else concat (map (\<lambda>st'. if length (fst (snd st')) < length (fst (snd st))
                                then rx_m (Rep a (lo - 1) (map_option (\<lambda>h. h - 1) hi)) st'
                                else [])
                       (rx_m a st))
           @ (if lo = 0 then [st] else []))"
| "rx_m (Grp a) st =
     map (\<lambda>st'. (fst st', fst (snd st'), Some (take (fst st' - fst st) (fst (snd st)))))
         (rx_m a st)"
| "rx_m (Ahead a) st = (if rx_m a st = [] then [] else [st])"
| "rx_m Bol st = (if fst st = 0 then [st] else [])"
| "rx_m Eol st = (if fst (snd st) = [] \<or> fst (snd st) = [10] then [st] else [])"
  by pat_completeness auto
termination
  by (relation "inv_image (less_than <*lex*> less_than)
                  (\<lambda>(r, st). (rx_size r, length (fst (snd st))))") auto

declare rx_m.simps [simp del]

text \<open>A sequence of patterns.\<close>

fun rx_seq :: "rx list \<Rightarrow> rx" where
  "rx_seq [] = Eps"
| "rx_seq [r] = r"
| "rx_seq (r # q # rs) = Cat r (rx_seq (q # rs))"

abbreviation Star :: "rx \<Rightarrow> rx" where "Star a \<equiv> Rep a 0 None"
abbreviation Plus :: "rx \<Rightarrow> rx" where "Plus a \<equiv> Rep a 1 None"
abbreviation Opt :: "rx \<Rightarrow> rx" where "Opt a \<equiv> Rep a 0 (Some 1)"
abbreviation Times :: "nat \<Rightarrow> rx \<Rightarrow> rx" where "Times n a \<equiv> Rep a n (Some n)"

text \<open>A literal character, and a literal character under \<open>re.IGNORECASE\<close>.\<close>

definition lit :: "nat \<Rightarrow> nat \<Rightarrow> bool" where
  "lit c x = (x = c)"

definition lit_ic :: "nat \<Rightarrow> nat \<Rightarrow> bool" where
  "lit_ic c x =
     (lower_cp x = lower_cp c
      \<or> (lower_cp c = 105 \<and> (x = 304 \<or> x = 305))
      \<or> (lower_cp c = 115 \<and> x = 383)
      \<or> (lower_cp c = 107 \<and> x = 8490))"

text \<open>
  \<open>re.match\<close> tries the start of the text only; \<open>re.search\<close> tries every position from
  the left and stops at the first at which the pattern matches.  Both return the start
  position and the state at the end of the match.
\<close>

definition re_match :: "rx \<Rightarrow> ustr \<Rightarrow> (nat \<times> mstate) option" where
  "re_match r text =
     (case rx_m r (0, text, None) of [] \<Rightarrow> None | st # _ \<Rightarrow> Some (0, st))"

fun rx_search_from :: "rx \<Rightarrow> nat \<Rightarrow> ustr \<Rightarrow> (nat \<times> mstate) option" where
  "rx_search_from r pos rest =
     (case rx_m r (pos, rest, None) of
        st # _ \<Rightarrow> Some (pos, st)
      | [] \<Rightarrow> (case rest of [] \<Rightarrow> None | c # cs \<Rightarrow> rx_search_from r (Suc pos) cs))"

definition re_search :: "rx \<Rightarrow> ustr \<Rightarrow> (nat \<times> mstate) option" where
  "re_search r text = rx_search_from r 0 text"

text \<open>\<open>match.group(1)\<close> and \<open>match.group(0)\<close> of a match in \<open>text\<close>.\<close>

definition group1 :: "nat \<times> mstate \<Rightarrow> ustr option" where
  "group1 m = snd (snd (snd m))"

definition group0 :: "ustr \<Rightarrow> nat \<times> mstate \<Rightarrow> ustr" where
  "group0 text m = take (fst (snd m) - fst m) (drop (fst m) text)"

text \<open>
  \<open>re.sub(pattern, repl, text)\<close> for a replacement without group references: the matches
  are replaced from the left, each search starting where the last match ended.  (The
  patterns of the program do not match the empty string; at an empty match one character
  is copied.)
\<close>

function re_sub_from :: "rx \<Rightarrow> ustr \<Rightarrow> nat \<Rightarrow> ustr \<Rightarrow> ustr" where
  "re_sub_from r repl pos rest =
     (case rx_m r (pos, rest, None) of
        st # _ \<Rightarrow>
          if length (fst (snd st)) < length rest
          then repl @ re_sub_from r repl (fst st) (fst (snd st))
          else (case rest of [] \<Rightarrow> [] | c # cs \<Rightarrow> c # re_sub_from r repl (Suc pos) cs)
      | [] \<Rightarrow> (case rest of [] \<Rightarrow> [] | c # cs \<Rightarrow> c # re_sub_from r repl (Suc pos) cs))"
  by pat_completeness auto
termination
  by (relation "measure (\<lambda>(r, repl, pos, rest). length rest)") auto

definition re_sub :: "rx \<Rightarrow> ustr \<Rightarrow> ustr \<Rightarrow> ustr" where
  "re_sub r repl text = re_sub_from r repl 0 text"

section \<open>Floating-point numbers\<close>

text \<open>
  A Python \<open>float\<close> is an IEEE 754 double.  The program only forms floats that are not
  negative: a finite one is the rational number it stands for, and an overflow gives
  infinity.

  \<open>round_to_double q\<close> is the double nearest to the rational \<open>q \<ge> 0\<close>, ties going to the
  even significand: with \<open>e\<close> the binary exponent of \<open>q\<close>, the doubles around \<open>q\<close> are the
  multiples of \<open>2 ^ (e - 52)\<close> (of \<open>2 ^ -1074\<close> in the subnormal range), and a result of
  \<open>2 ^ 1024\<close> or more is infinity.  Both the conversion of a decimal string (\<open>float(s)\<close>)
  and the multiplication of two doubles round in this way.
\<close>

datatype pyfloat = Finite rat | Infinity

fun log2_nat :: "nat \<Rightarrow> nat" where
  "log2_nat n = (if n < 2 then 0 else Suc (log2_nat (n div 2)))"

declare log2_nat.simps [simp del]

text \<open>The binary exponent \<open>e\<close> of a positive rational: \<open>2 ^ e \<le> q < 2 ^ (e + 1)\<close>.\<close>

definition binary_exponent :: "rat \<Rightarrow> int" where
  "binary_exponent q =
     (let (a, b) = quotient_of q;
          e0 = int (log2_nat (nat a)) - int (log2_nat (nat b))
      in if 2 powi e0 \<le> q then e0 else e0 - 1)"

definition round_half_even :: "rat \<Rightarrow> int" where
  "round_half_even x =
     (let f = \<lfloor>x\<rfloor>; d = x - of_int f
      in if d < 1 / 2 then f
         else if 1 / 2 < d then f + 1
         else if even f then f else f + 1)"

definition round_to_double :: "rat \<Rightarrow> pyfloat" where
  "round_to_double q =
     (if q = 0 then Finite 0
      else let ulp_exp = max (binary_exponent q - 52) (- 1074);
               r = of_int (round_half_even (q / 2 powi ulp_exp)) * 2 powi ulp_exp
           in if 2 powi 1024 \<le> r then Infinity else Finite r)"

text \<open>\<open>x * m\<close> for a float \<open>x\<close> and an integer \<open>m > 0\<close> that a double holds exactly.\<close>

definition float_times_int :: "pyfloat \<Rightarrow> int \<Rightarrow> pyfloat" where
  "float_times_int x m =
     (case x of Infinity \<Rightarrow> Infinity | Finite r \<Rightarrow> round_to_double (r * of_int m))"

text \<open>\<open>int(x)\<close> truncates; on infinity it raises \<open>OverflowError\<close>.\<close>

definition int_of_float :: "pyfloat \<Rightarrow> exn + int" where
  "int_of_float x =
     (case x of
        Infinity \<Rightarrow> Inl (Exn OverflowError (asc ''cannot convert float infinity to integer''))
      | Finite r \<Rightarrow> Inr \<lfloor>r\<rfloor>)"

text \<open>
  \<open>float(s)\<close> for a string of decimal digits and dots (what \<open>parse_revenue\<close> passes): the
  string is a number when it has at most one dot and at least one digit, and raises
  \<open>ValueError\<close> otherwise.
\<close>

definition float_of_str :: "ustr \<Rightarrow> exn + pyfloat" where
  "float_of_str s =
     (let ip = takeWhile (\<lambda>c. c \<noteq> 46) s;
          fp = drop 1 (dropWhile (\<lambda>c. c \<noteq> 46) s)
      in if list_all re_digit ip \<and> list_all re_digit fp \<and> ip @ fp \<noteq> []
         then Inr (round_to_double (of_nat (decimal_value (ip @ fp)) / 10 ^ length fp))
         else Inl (Exn ValueError (asc ''could not convert string to float'')))"

text \<open>
  The rationals that a finite double holds: zero, and \<open>m * 2 ^ u\<close> for a significand
  \<open>m\<close> below \<open>2 ^ 53\<close> and an exponent \<open>u\<close> from \<open>-1074\<close>, below \<open>2 ^ 1024\<close>.
\<close>

definition is_double :: "rat \<Rightarrow> bool" where
  "is_double r =
     (r = 0 \<or> (\<exists>m u. 0 < m \<and> m < 2 ^ 53 \<and> - 1074 \<le> u \<and> r = of_int m * 2 powi u
                      \<and> r < 2 powi 1024))"

section \<open>utils.py: class Utils\<close>

text \<open>
  The message of the \<open>TypeError\<close> that the module \<open>re\<close> raises when it is given an integer
  instead of a string (CPython 3.11).  The messages of exceptions that the program catches
  without reading them are left empty.
\<close>

definition msg_expected_string :: ustr where
  "msg_expected_string =
     asc ''expected string or bytes-like object, got '' @ [39] @ asc ''int'' @ [39]"

subsection \<open>normalize_text\<close>

text \<open>
  \<open>re.sub(r'\s+', ' ', text.strip())\<close>, after \<open>if not text: return ""\<close>.  A value that is
  true and not a string has no method \<open>strip\<close>.
\<close>

definition ws_run :: rx where
  "ws_run = Plus (Cls re_space)"

definition normalize_text :: "pyval \<Rightarrow> exn + ustr" where
  "normalize_text text =
     (if \<not> truthy text then Inr []
      else case text of
             VStr s \<Rightarrow> Inr (re_sub ws_run [32] (py_strip s))
           | _ \<Rightarrow> Inl (Exn AttributeError []))"

subsection \<open>parse_employees\<close>

text \<open>The pattern \<open>(\d[\d\s]*)\<close>.\<close>

definition employees_pattern :: rx where
  "employees_pattern =
     Grp (Cat (Cls re_digit) (Star (Cls (\<lambda>c. re_digit c \<or> re_space c))))"

definition parse_employees :: "ustr \<Rightarrow> int option" where
  "parse_employees employees_text =
     (if employees_text = [] then None
      else case re_search employees_pattern employees_text of
             None \<Rightarrow> None
           | Some m \<Rightarrow>
               (case group1 m of
                  None \<Rightarrow> None
                | Some g \<Rightarrow>
                    (case py_int_of_str (replace_char 32 [] g) of
                       Inr n \<Rightarrow> Some n
                     | Inl e \<Rightarrow> None)))"

subsection \<open>extract_inn and validate_inn\<close>

text \<open>
  The three patterns of \<open>inn_patterns\<close>, searched with \<open>re.IGNORECASE\<close>:
  \<^verbatim>\<open>INN\s*[:=]?\s*(\d{10}|\d{12})\<close> with the label in Cyrillic capitals (U+0418 U+041D
  U+041D), \<^verbatim>\<open>(\d{10}|\d{12})(?=\D|$)\<close>, and \<^verbatim>\<open>inn\s*[:=]?\s*(\d{10}|\d{12})\<close>.
\<close>

definition inn_digits :: rx where
  "inn_digits = Grp (Alt (Times 10 (Cls re_digit)) (Times 12 (Cls re_digit)))"

definition inn_label_tail :: rx where
  "inn_label_tail =
     rx_seq [Star (Cls re_space), Opt (Cls (\<lambda>c. c = 58 \<or> c = 61)), Star (Cls re_space),
             inn_digits]"

definition inn_pattern_1 :: rx where
  "inn_pattern_1 =
     rx_seq [Cls (lit_ic 1048), Cls (lit_ic 1053), Cls (lit_ic 1053), inn_label_tail]"

definition inn_pattern_2 :: rx where
  "inn_pattern_2 = Cat inn_digits (Ahead (Alt (Cls (\<lambda>c. \<not> re_digit c)) Eol))"

definition inn_pattern_3 :: rx where
  "inn_pattern_3 =
     rx_seq [Cls (lit_ic 105), Cls (lit_ic 110), Cls (lit_ic 110), inn_label_tail]"

definition inn_patterns :: "rx list" where
  "inn_patterns = [inn_pattern_1, inn_pattern_2, inn_pattern_3]"

text \<open>The loop \<open>for pattern in inn_patterns\<close>: the first pattern that matches decides.\<close>

fun extract_inn_loop :: "rx list \<Rightarrow> ustr \<Rightarrow> ustr option" where
  "extract_inn_loop [] text = None"
| "extract_inn_loop (pattern # patterns) text =
     (case re_search pattern text of
        Some m \<Rightarrow> group1 m
      | None \<Rightarrow> extract_inn_loop patterns text)"

definition extract_inn :: "ustr \<Rightarrow> ustr option" where
  "extract_inn text = (if text = [] then None else extract_inn_loop inn_patterns text)"

definition validate_inn :: "pyval \<Rightarrow> bool" where
  "validate_inn inn =
     (case inn of
        VStr s \<Rightarrow>
          if s = [] then False
          else if \<not> py_isdigit s then False
          else if length s \<noteq> 10 \<and> length s \<noteq> 12 then False
          else True
      | _ \<Rightarrow> False)"

text \<open>What group 1 holds after a match of \<open>inn_digits\<close>: ten or twelve decimal digits.\<close>

definition inn_shaped :: "ustr option \<Rightarrow> bool" where
  "inn_shaped g = (\<exists>v. g = Some v \<and> (length v = 10 \<or> length v = 12) \<and> list_all re_digit v)"

subsection \<open>normalize_okved\<close>

text \<open>The pattern \<^verbatim>\<open>(\d{2}\.?\d{0,2}\.?\d{0,2})\<close>.\<close>

definition okved_pattern :: rx where
  "okved_pattern =
     Grp (rx_seq [Times 2 (Cls re_digit), Opt (Cls (lit 46)), Rep (Cls re_digit) 0 (Some 2),
                  Opt (Cls (lit 46)), Rep (Cls re_digit) 0 (Some 2)])"

definition normalize_okved :: "pyval \<Rightarrow> exn + ustr" where
  "normalize_okved okved_text =
     (if \<not> truthy okved_text then Inr []
      else case okved_text of
             VStr s \<Rightarrow>
               (case re_search okved_pattern s of
                  Some m \<Rightarrow> Inr (replace_char 46 [] (case group1 m of None \<Rightarrow> [] | Some code \<Rightarrow> code))
                | None \<Rightarrow> Inr (py_strip s))
           | _ \<Rightarrow> Inl (Exn TypeError msg_expected_string))"

subsection \<open>is_valid_url\<close>

text \<open>
  The pattern of \<open>is_valid_url\<close>, compiled with \<open>re.IGNORECASE\<close>:
  \<^verbatim>\<open>^https?://\<close>, then one of
  \<^verbatim>\<open>(?:[A-Z0-9](?:[A-Z0-9-]{0,61}[A-Z0-9])?\.)+[A-Z]{2,6}\.?\<close>, \<^verbatim>\<open>localhost\<close> and
  \<^verbatim>\<open>\d{1,3}\.\d{1,3}\.\d{1,3}\.\d{1,3}\<close>, then \<^verbatim>\<open>(?::\d+)?\<close> and \<^verbatim>\<open>(?:/?|[/?]\S+)$\<close>.
  Under \<open>re.IGNORECASE\<close> the class \<open>[A-Z]\<close> holds the 52 ASCII letters and the four letters
  U+0130, U+0131, U+017F and U+212A.
\<close>

definition letter_ic :: "nat \<Rightarrow> bool" where
  "letter_ic c = ((65 \<le> c \<and> c \<le> 90) \<or> (97 \<le> c \<and> c \<le> 122)
                  \<or> c = 304 \<or> c = 305 \<or> c = 383 \<or> c = 8490)"

definition alnum_ic :: "nat \<Rightarrow> bool" where
  "alnum_ic c = (letter_ic c \<or> (48 \<le> c \<and> c \<le> 57))"

definition lits_ic :: "string \<Rightarrow> rx" where
  "lits_ic s = rx_seq (map (\<lambda>c. Cls (lit_ic (of_char c))) s)"

definition url_host_name :: rx where
  "url_host_name =
     rx_seq [Plus (rx_seq [Cls alnum_ic,
                           Opt (Cat (Rep (Cls (\<lambda>c. alnum_ic c \<or> c = 45)) 0 (Some 61))
                                    (Cls alnum_ic)),
                           Cls (lit 46)]),
             Rep (Cls letter_ic) 2 (Some 6),
             Opt (Cls (lit 46))]"

definition url_host_ip :: rx where
  "url_host_ip =
     rx_seq [Rep (Cls re_digit) 1 (Some 3), Cls (lit 46), Rep (Cls re_digit) 1 (Some 3),
             Cls (lit 46), Rep (Cls re_digit) 1 (Some 3), Cls (lit 46),
             Rep (Cls re_digit) 1 (Some 3)]"

definition url_pattern :: rx where
  "url_pattern =
     rx_seq [Bol, lits_ic ''http'', Opt (Cls (lit_ic 115)), Cls (lit 58), Cls (lit 47),
             Cls (lit 47),
             Alt url_host_name (Alt (lits_ic ''localhost'') url_host_ip),
             Opt (Cat (Cls (lit 58)) (Plus (Cls re_digit))),
             Alt (Opt (Cls (lit 47)))
                 (Cat (Cls (\<lambda>c. c = 47 \<or> c = 63)) (Plus (Cls (\<lambda>c. \<not> re_space c)))),
             Eol]"

definition is_valid_url :: "pyval \<Rightarrow> exn + bool" where
  "is_valid_url url =
     (if \<not> truthy url then Inr False
      else case url of
             VStr s \<Rightarrow> Inr (re_match url_pattern s \<noteq> None)
           | _ \<Rightarrow> Inl (Exn TypeError msg_expected_string))"

subsection \<open>parse_revenue\<close>

text \<open>
  The unit words, in lower case: \<open>mln\<close>, \<open>mlrd\<close> and \<open>tys\<close> in Cyrillic (U+043C U+043B
  U+043D; U+043C U+043B U+0440 U+0434; U+0442 U+044B U+0441), and the English words.
\<close>

definition word_mln :: ustr where "word_mln = [1084, 1083, 1085]"
definition word_mlrd :: ustr where "word_mlrd = [1084, 1083, 1088, 1076]"
definition word_tys :: ustr where "word_tys = [1090, 1099, 1089]"

definition revenue_multiplier :: "ustr \<Rightarrow> int" where
  "revenue_multiplier revenue_text =
     (let low = py_lower revenue_text in
      if py_in word_mln low \<or> py_in (asc ''million'') low then 1000000
      else if py_in word_mlrd low \<or> py_in (asc ''billion'') low then 1000000000
      else if py_in word_tys low \<or> py_in (asc ''thousand'') low then 1000
      else 1)"

text \<open>
  \<open>clean_text\<close>: \<open>re.sub(r'[^\d.,]', '', revenue_text)\<close> keeps the digits, dots and commas;
  then every comma becomes a dot.  The \<open>except\<close> clause catches \<open>ValueError\<close> and
  \<open>AttributeError\<close> only.
\<close>

definition parse_revenue :: "ustr \<Rightarrow> exn + int option" where
  "parse_revenue revenue_text =
     (if revenue_text = [] then Inr None
      else
        let clean_text = replace_char 44 [46]
                           (filter (\<lambda>c. re_digit c \<or> c = 46 \<or> c = 44) revenue_text);
            multiplier = revenue_multiplier revenue_text
        in if clean_text = [] then Inr None
           else case float_of_str clean_text of
                  Inl e \<Rightarrow> if exn_kind e = ValueError \<or> exn_kind e = AttributeError
                            then Inr None else Inl e
                | Inr v \<Rightarrow>
                    (case int_of_float (float_times_int v multiplier) of
                       Inl e \<Rightarrow> if exn_kind e = ValueError \<or> exn_kind e = AttributeError
                                 then Inr None else Inl e
                     | Inr n \<Rightarrow> Inr (Some n)))"

text \<open>The unit words of the specification with their factors.\<close>

definition unit_words :: "(ustr \<times> int) list" where
  "unit_words =
     [(word_tys, 1000), (asc ''thousand'', 1000),
      (word_mln, 1000000), (asc ''million'', 1000000),
      (word_mlrd, 1000000000), (asc ''billion'', 1000000000)]"

section \<open>config.py: the search parameters\<close>

record search_params =
  min_revenue :: int
  revenue_year :: int
  keywords_cat :: "ustr list"
  cat_products :: "ustr list"

section \<open>parser.py: class CompanyParser\<close>

subsection \<open>parse_revenue_field and parse_employees_field\<close>

text \<open>
  An integer is taken as it is, a string goes to \<open>Utils.parse_revenue\<close>.  The \<open>except\<close>
  clause of \<open>parse_revenue_field\<close> catches \<open>ValueError\<close> and \<open>TypeError\<close>.
\<close>

definition parse_revenue_field :: "pyval \<Rightarrow> exn + int option" where
  "parse_revenue_field revenue_input =
     (case revenue_input of
        VNone \<Rightarrow> Inr None
      | VInt n \<Rightarrow> Inr (Some n)
      | VStr s \<Rightarrow>
          (case parse_revenue s of
             Inl e \<Rightarrow> if exn_kind e = ValueError \<or> exn_kind e = TypeError
                       then Inr None else Inl e
           | Inr v \<Rightarrow> Inr v))"

definition parse_employees_field :: "pyval \<Rightarrow> int option" where
  "parse_employees_field employees_input =
     (case employees_input of
        VNone \<Rightarrow> None
      | VInt n \<Rightarrow> Some n
      | VStr s \<Rightarrow> parse_employees s)"

subsection \<open>parse_company_data\<close>

text \<open>\<open>str(x)\<close>.\<close>

definition py_str :: "pyval \<Rightarrow> ustr" where
  "py_str v = (case v of VNone \<Rightarrow> asc ''None'' | VInt n \<Rightarrow> py_str_int n | VStr s \<Rightarrow> s)"

text \<open>
  The tax ID of a raw record: \<open>Utils.extract_inn(inn) or inn\<close> for a string that is not
  empty, then \<open>str(inn).strip() if inn else ''\<close>.
\<close>

definition normalize_inn :: "pyval \<Rightarrow> pyval" where
  "normalize_inn inn0 =
     (let inn1 = (case inn0 of
                    VStr s \<Rightarrow>
                      if s \<noteq> []
                      then (case extract_inn s of
                              Some v \<Rightarrow> if v \<noteq> [] then VStr v else inn0
                            | None \<Rightarrow> inn0)
                      else inn0
                  | _ \<Rightarrow> inn0)
      in if truthy inn1 then VStr (py_strip (py_str inn1)) else VStr [])"

text \<open>
  The web site of a raw record: a string is stripped, and gets the prefix \<open>https://\<close>
  when it is not empty and starts with neither \<open>http://\<close> nor \<open>https://\<close>.
\<close>

definition normalize_site :: "pyval \<Rightarrow> pyval" where
  "normalize_site site0 =
     (case site0 of
        VStr s \<Rightarrow>
          if s \<noteq> []
          then (let t = py_strip s in
                if t \<noteq> [] \<and> \<not> (startswith t (asc ''http://'') \<or> startswith t (asc ''https://''))
                then VStr (asc ''https://'' @ t) else VStr t)
          else site0
      | _ \<Rightarrow> site0)"

text \<open>
  The body of the \<open>try\<close> block of \<open>parse_company_data\<close>; \<open>now\<close> is the text of
  \<open>datetime.now().isoformat()\<close>.  The empty dictionary is the rejection.
\<close>

definition parse_company_body :: "search_params \<Rightarrow> ustr \<Rightarrow> company \<Rightarrow> exn + company" where
  "parse_company_body config now raw_company =
     (let inn = normalize_inn (dict_get raw_company ''inn'' (VStr [])) in
      if \<not> validate_inn inn then Inr Map.empty
      else case normalize_text (dict_get raw_company ''name'' (VStr [])) of
        Inl e \<Rightarrow> Inl e
      | Inr name \<Rightarrow>
          if name = [] then Inr Map.empty
          else case parse_revenue_field (dict_get_none raw_company ''revenue'') of
            Inl e \<Rightarrow> Inl e
          | Inr None \<Rightarrow> Inr Map.empty
          | Inr (Some revenue) \<Rightarrow>
              if revenue < min_revenue config then Inr Map.empty
              else
                let site = normalize_site (dict_get raw_company ''site'' (VStr []));
                    employees = parse_employees_field (dict_get_none raw_company ''employees'')
                in case normalize_okved (dict_get raw_company ''okved_main'' (VStr [])) of
                  Inl e \<Rightarrow> Inl e
                | Inr okved_main \<Rightarrow>
                    Inr [''inn'' \<mapsto> inn,
                         ''name'' \<mapsto> VStr name,
                         ''revenue'' \<mapsto> VInt revenue,
                         ''site'' \<mapsto> site,
                         ''okved_main'' \<mapsto> VStr okved_main,
                         ''employees'' \<mapsto> (case employees of None \<Rightarrow> VNone | Some n \<Rightarrow> VInt n),
                         ''source'' \<mapsto> dict_get raw_company ''source'' (VStr (asc ''unknown'')),
                         ''detail_url'' \<mapsto> dict_get raw_company ''detail_url'' (VStr []),
                         ''parsed_at'' \<mapsto> VStr now])"

text \<open>\<open>except Exception\<close>: any exception of the body gives the empty dictionary.\<close>

definition parse_company_data :: "search_params \<Rightarrow> ustr \<Rightarrow> company \<Rightarrow> company" where
  "parse_company_data config now raw_company =
     (case parse_company_body config now raw_company of
        Inl e \<Rightarrow> Map.empty
      | Inr parsed_company \<Rightarrow> parsed_company)"

subsection \<open>enrich_with_additional_data\<close>

text \<open>
  The two chains of comparisons.  They are applied to integers; a comparison of \<open>None\<close>
  or of a string with an integer raises \<open>TypeError\<close>.
\<close>

definition size_category_of :: "int \<Rightarrow> ustr" where
  "size_category_of employees =
     (if employees \<le> 15 then asc ''micro''
      else if employees \<le> 100 then asc ''small''
      else if employees \<le> 250 then asc ''medium''
      else asc ''large'')"

definition revenue_category_of :: "int \<Rightarrow> ustr" where
  "revenue_category_of revenue =
     (if revenue \<ge> 1000000000 then asc ''large''
      else if revenue \<ge> 500000000 then asc ''medium''
      else asc ''small'')"

text \<open>The pattern \<^verbatim>\<open>\?.*$\<close>; the dot matches every character but the newline.\<close>

definition query_pattern :: rx where
  "query_pattern = rx_seq [Cls (lit 63), Star (Cls (\<lambda>c. c \<noteq> 10)), Eol]"

text \<open>The body of the \<open>try\<close> block in the loop of \<open>enrich_with_additional_data\<close>.\<close>

definition enrich_company :: "company \<Rightarrow> exn + company" where
  "enrich_company company =
     (let employees = dict_get_none company ''employees'' in
      case (if truthy employees
            then (case employees of
                    VInt n \<Rightarrow> Inr (company(''size_category'' \<mapsto> VStr (size_category_of n)))
                  | _ \<Rightarrow> Inl (Exn TypeError []))
            else Inr company) of
        Inl e \<Rightarrow> Inl e
      | Inr enriched1 \<Rightarrow>
          (case dict_get company ''revenue'' (VInt 0) of
             VInt revenue \<Rightarrow>
               (let enriched2 = enriched1(''revenue_category'' \<mapsto> VStr (revenue_category_of revenue));
                    site = dict_get company ''site'' (VStr [])
                in if truthy site
                   then (case site of
                           VStr s \<Rightarrow> Inr (enriched2(''site'' \<mapsto> VStr (re_sub query_pattern [] s)))
                         | _ \<Rightarrow> Inl (Exn TypeError msg_expected_string))
                   else Inr enriched2)
           | _ \<Rightarrow> Inl (Exn TypeError [])))"

text \<open>The loop: a record whose enrichment raises is appended as it came.\<close>

definition enrich_with_additional_data :: "company list \<Rightarrow> company list" where
  "enrich_with_additional_data companies =
     map (\<lambda>company. case enrich_company company of
                       Inl e \<Rightarrow> company
                     | Inr enriched_company \<Rightarrow> enriched_company)
         companies"

subsection \<open>The types of the fields\<close>

text \<open>
  Tests on the type of a value, used to say which records a statement is about: the
  parser stores an integer or \<open>None\<close> under \<open>employees\<close>, an integer under \<open>revenue\<close> and
  a string under \<open>site\<close>.
\<close>

definition is_int :: "pyval \<Rightarrow> bool" where
  "is_int v = (case v of VInt n \<Rightarrow> True | _ \<Rightarrow> False)"

definition is_str :: "pyval \<Rightarrow> bool" where
  "is_str v = (case v of VStr s \<Rightarrow> True | _ \<Rightarrow> False)"

definition is_int_or_none :: "pyval \<Rightarrow> bool" where
  "is_int_or_none v = (case v of VStr s \<Rightarrow> False | _ \<Rightarrow> True)"

definition int_of :: "pyval \<Rightarrow> int" where
  "int_of v = (case v of VInt n \<Rightarrow> n | _ \<Rightarrow> 0)"

definition str_of :: "pyval \<Rightarrow> ustr" where
  "str_of v = (case v of VStr s \<Rightarrow> s | _ \<Rightarrow> [])"

definition parsed_types :: "company \<Rightarrow> bool" where
  "parsed_types company =
     (is_int_or_none (dict_get_none company ''employees'')
      \<and> is_int (dict_get company ''revenue'' (VInt 0))
      \<and> is_str (dict_get company ''site'' (VStr [])))"

section \<open>parser.py: CompanyParser.deduplicate_companies\<close>

text \<open>
  The loop of \<open>deduplicate_companies\<close> with its two local variables: the set
  \<open>seen_inns\<close> and the list \<open>unique_companies\<close>.  The \<open>elif\<close> branch only logs.
\<close>

fun dedup_loop :: "company list \<Rightarrow> pyval set \<Rightarrow> company list \<Rightarrow> company list" where
  "dedup_loop [] seen_inns unique_companies = unique_companies"
| "dedup_loop (company # rest) seen_inns unique_companies =
     (let inn = dict_get company ''inn'' (VStr []) in
      if truthy inn \<and> inn \<notin> seen_inns
      then dedup_loop rest (insert inn seen_inns) (unique_companies @ [company])
      else dedup_loop rest seen_inns unique_companies)"

definition deduplicate_companies :: "company list \<Rightarrow> company list" where
  "deduplicate_companies companies = dedup_loop companies {} []"

text \<open>The tax ID a record is compared by.\<close>

definition inn_of :: "company \<Rightarrow> pyval" where
  "inn_of company = dict_get company ''inn'' (VStr [])"

section \<open>cat_detector.py: class CATDetector\<close>

subsection \<open>The keyword list\<close>

text \<open>
  The three groups of keywords that the constructor appends to the configured
  \<open>keywords_cat\<close>, under their comments in the source: Russian terms, English terms and
  product names.  Cyrillic keywords are given by their code points; in the order of the
  list they read \<open>pamyat perevodov\<close>, \<open>tm-pamyat\<close>, \<open>tm pamyat\<close>,
  \<open>upravlenie perevodami\<close>, \<open>sistema upravleniya perevodami\<close>,
  \<open>platforma lokalizatsii\<close>, \<open>lokalizatsionnaya platforma\<close>,
  \<open>mashinnyj perevod\<close>, \<open>mt-sistema\<close>, \<open>qa
  proverka\<close>, \<open>terminologicheskoe upravlenie\<close>,
  \<open>terminologicheskaya baza dannykh\<close>, \<open>perevodcheskie
  tekhnologii\<close>, \<open>instrumenty perevodchika\<close>.
\<close>

definition russian_terms :: "ustr list" where
  "russian_terms =
    [[1087, 1072, 1084, 1103, 1090, 1100, 32, 1087, 1077, 1088, 1077, 1074, 1086, 1076, 1086,
     1074], [116, 109, 45, 1087, 1072, 1084, 1103, 1090, 1100],
     [116, 109, 32, 1087, 1072, 1084, 1103, 1090, 1100],
     [1091, 1087, 1088, 1072, 1074, 1083, 1077, 1085, 1080, 1077, 32, 1087, 1077, 1088, 1077,
     1074, 1086, 1076, 1072, 1084, 1080],
     [1089, 1080, 1089, 1090, 1077, 1084, 1072, 32, 1091, 1087, 1088, 1072, 1074, 1083, 1077,
     1085, 1080, 1103, 32, 1087, 1077, 1088, 1077, 1074, 1086, 1076, 1072, 1084, 1080],
     [1087, 1083, 1072, 1090, 1092, 1086, 1088, 1084, 1072, 32, 1083, 1086, 1082, 1072, 1083,
     1080, 1079, 1072, 1094, 1080, 1080],
     [1083, 1086, 1082, 1072, 1083, 1080, 1079, 1072, 1094, 1080, 1086, 1085, 1085, 1072,
     1103, 32, 1087, 1083, 1072, 1090, 1092, 1086, 1088, 1084, 1072],
     [1084, 1072, 1096, 1080, 1085, 1085, 1099, 1081, 32, 1087, 1077, 1088, 1077, 1074, 1086,
     1076], asc ''mt'', [109, 116, 45, 1089, 1080, 1089, 1090, 1077, 1084, 1072],
     [113, 97, 32, 1087, 1088, 1086, 1074, 1077, 1088, 1082, 1072],
     asc ''quality assurance'', asc ''lqa'',
     [1090, 1077, 1088, 1084, 1080, 1085, 1086, 1083, 1086, 1075, 1080, 1095, 1077, 1089,
     1082, 1086, 1077, 32, 1091, 1087, 1088, 1072, 1074, 1083, 1077, 1085, 1080, 1077],
     [1090, 1077, 1088, 1084, 1080, 1085, 1086, 1083, 1086, 1075, 1080, 1095, 1077, 1089,
     1082, 1072, 1103, 32, 1073, 1072, 1079, 1072, 32, 1076, 1072, 1085, 1085, 1099, 1093],
     asc ''tbx'', asc ''xliff'', asc ''tmx'', asc ''sdlxliff'',
     [1087, 1077, 1088, 1077, 1074, 1086, 1076, 1095, 1077, 1089, 1082, 1080, 1077, 32, 1090,
     1077, 1093, 1085, 1086, 1083, 1086, 1075, 1080, 1080],
     [1080, 1085, 1089, 1090, 1088, 1091, 1084, 1077, 1085, 1090, 1099, 32, 1087, 1077, 1088,
     1077, 1074, 1086, 1076, 1095, 1080, 1082, 1072]]"

definition english_terms :: "ustr list" where
  "english_terms =
    [asc ''computer-assisted translation'', asc ''computer aided translation'',
     asc ''translation management system'', asc ''localization platform'',
     asc ''translation workflow'', asc ''translation project management'',
     asc ''translation memory system'', asc ''terminology management'',
     asc ''translation quality assurance'', asc ''translation environment tool'',
     asc ''multilingual content management'']"

definition product_names :: "ustr list" where
  "product_names =
    [asc ''trados studio'', asc ''sdl trados'', asc ''memoq server'', asc ''memoq web'',
     asc ''smartcat.ai'', asc ''smartcat platform'', asc ''memsource editor'',
     asc ''phrase tms'', asc ''xtm cloud'', asc ''xtm workflow'', asc ''wordfast pro'',
     asc ''transit nxt'', asc ''across language server'', asc ''lingotek'', asc ''prome'',
     asc ''promt'', asc ''translate.ru'']"

definition cat_keywords :: "search_params \<Rightarrow> ustr list" where
  "cat_keywords config = keywords_cat config @ russian_terms @ english_terms @ product_names"

text \<open>
  The defaults of \<open>Config.get_default_config\<close>.  The Cyrillic keywords read
  \<open>cat-sistem\<close>, \<open>lokalizatsiya\<close>, \<open>kompyuternaya podderzhka
  perevoda\<close>, \<open>terminologicheskaya baza\<close>, \<open>perevodchesk\<close>; the last two products read \<open>Lingvotek\<close>, \<open>Promt\<close>.
\<close>

definition default_keywords_cat :: "ustr list" where
  "default_keywords_cat =
    [asc ''translation memory'', asc ''tm'', asc ''tms'',
     [99, 97, 116, 45, 1089, 1080, 1089, 1090, 1077, 1084], asc ''cat tool'',
     [1083, 1086, 1082, 1072, 1083, 1080, 1079, 1072, 1094, 1080, 1103],
     [1082, 1086, 1084, 1087, 1100, 1102, 1090, 1077, 1088, 1085, 1072, 1103, 32, 1087, 1086,
     1076, 1076, 1077, 1088, 1078, 1082, 1072, 32, 1087, 1077, 1088, 1077, 1074, 1086, 1076,
     1072],
     [1090, 1077, 1088, 1084, 1080, 1085, 1086, 1083, 1086, 1075, 1080, 1095, 1077, 1089,
     1082, 1072, 1103, 32, 1073, 1072, 1079, 1072], asc ''memoq'', asc ''trados'',
     asc ''smartcat'', asc ''memsource'', asc ''phrase'', asc ''xtm'', asc ''wordfast'',
     [1087, 1077, 1088, 1077, 1074, 1086, 1076, 1095, 1077, 1089, 1082]]"

definition default_cat_products :: "ustr list" where
  "default_cat_products =
    [asc ''SDL Trados'', asc ''memoQ'', asc ''Smartcat'', asc ''Memsource'', asc ''Phrase'',
     asc ''XTM'', asc ''Wordfast'', asc ''Transit'', asc ''Across'',
     [1051, 1080, 1085, 1075, 1074, 1086, 1090, 1077, 1082], [1055, 1088, 1086, 1084, 1090]]"

definition default_search_params :: search_params where
  "default_search_params =
     \<lparr>min_revenue = 100000000, revenue_year = 2023,
      keywords_cat = default_keywords_cat, cat_products = default_cat_products\<rparr>"

subsection \<open>get_keyword_confidence\<close>

text \<open>
  A float literal is the double nearest to the decimal it is written as.  The last general
  term is the Russian word for localisation (\<open>lokalizatsiya\<close>).
\<close>

definition float_literal :: "rat \<Rightarrow> pyfloat" where
  "float_literal q = round_to_double q"

definition product_keywords :: "ustr list" where
  "product_keywords =
     [asc ''trados'', asc ''memoq'', asc ''smartcat'', asc ''memsource'', asc ''phrase'']"

definition general_terms :: "ustr list" where
  "general_terms =
     [asc ''translation memory'', asc ''tm'', asc ''tms'',
      [1083, 1086, 1082, 1072, 1083, 1080, 1079, 1072, 1094, 1080, 1103]]"

text \<open>Each \<open>for\<close> loop returns at the first entry that occurs in the lower-cased keyword.\<close>

definition get_keyword_confidence :: "ustr \<Rightarrow> pyfloat" where
  "get_keyword_confidence keyword =
     (if list_ex (\<lambda>product. py_in product (py_lower keyword)) product_keywords
      then float_literal (9 / 10)
      else if list_ex (\<lambda>term. py_in term (py_lower keyword)) general_terms
      then float_literal (7 / 10)
      else float_literal (5 / 10))"

subsection \<open>analyze_company_website and analyze_multiple_companies\<close>

text \<open>
  The markers that the scorer writes into \<open>cat_evidence\<close>: no web site or wrong URL, the
  site could not be loaded, no signs of CAT systems found, and the prefix of the analysis
  error (\<open>Oshibka analiza\<close>, a colon and a space), which is followed by \<open>str(e)\<close>.
\<close>

definition marker_no_site :: ustr where
  "marker_no_site =
    [1053, 1077, 1090, 32, 1074, 1077, 1073, 45, 1089, 1072, 1081, 1090, 1072, 32, 1080,
     1083, 1080, 32, 1085, 1077, 1074, 1077, 1088, 1085, 1099, 1081, 32, 85, 82, 76]"

definition marker_fetch_failed :: ustr where
  "marker_fetch_failed =
    [1053, 1077, 32, 1091, 1076, 1072, 1083, 1086, 1089, 1100, 32, 1079, 1072, 1075, 1088,
     1091, 1079, 1080, 1090, 1100, 32, 1089, 1072, 1081, 1090]"

definition marker_no_evidence :: ustr where
  "marker_no_evidence =
    [1055, 1088, 1080, 1079, 1085, 1072, 1082, 1080, 32, 67, 65, 84, 45, 1089, 1080, 1089,
     1090, 1077, 1084, 32, 1085, 1077, 32, 1086, 1073, 1085, 1072, 1088, 1091, 1078, 1077,
     1085, 1099]"

definition marker_error_prefix :: ustr where
  "marker_error_prefix =
    [1054, 1096, 1080, 1073, 1082, 1072, 32, 1072, 1085, 1072, 1083, 1080, 1079, 1072, 58,
     32]"

text \<open>An evidence item: the dictionary built by \<open>search_cat_evidence\<close>.\<close>

record evidence =
  ev_keyword :: ustr
  ev_context :: ustr
  ev_section :: ustr
  ev_confidence :: pyfloat

text \<open>
  What the analysis reads from the network, and the steps whose result depends on the
  pages and on the iteration order of Python sets, are parameters of the model; each of
  them may raise.  \<open>fetch_page\<close> returns the parsed page or \<open>None\<close>.  \<open>gather_evidence\<close>
  stands for the statements that build \<open>all_evidence\<close> from the main page, the job
  postings and the sections of the site.  \<open>join_keywords_found\<close> is the value of
  \<open>'; '.join(set(...))\<close>.  \<open>Utils.delay\<close> only sleeps.
\<close>

record 'soup web_env =
  fetch_page :: "ustr \<Rightarrow> exn + 'soup option"
  gather_evidence :: "ustr \<Rightarrow> 'soup \<Rightarrow> exn + evidence list"
  extract_cat_products :: "evidence list \<Rightarrow> exn + ustr list"
  prepare_evidence_description :: "evidence list \<Rightarrow> exn + ustr"
  join_keywords_found :: "evidence list \<Rightarrow> exn + ustr"

text \<open>The dictionaries \<open>{**company, 'cat_evidence': ..., 'cat_product': '', 'cat_score': 0}\<close>.\<close>

definition with_marker :: "company \<Rightarrow> ustr \<Rightarrow> company" where
  "with_marker company marker =
     company(''cat_evidence'' \<mapsto> VStr marker, ''cat_product'' \<mapsto> VStr [],
             ''cat_score'' \<mapsto> VInt 0)"

definition error_record :: "company \<Rightarrow> exn \<Rightarrow> company" where
  "error_record company e = with_marker company (marker_error_prefix @ exn_message e)"

text \<open>The body of the \<open>try\<close> block of \<open>analyze_company_website\<close>.\<close>

definition analyze_try_body :: "'soup web_env \<Rightarrow> company \<Rightarrow> ustr \<Rightarrow> exn + company" where
  "analyze_try_body env company website =
     (case fetch_page env website of
        Inl e \<Rightarrow> Inl e
      | Inr None \<Rightarrow> Inr (with_marker company marker_fetch_failed)
      | Inr (Some main_page_soup) \<Rightarrow>
          (case gather_evidence env website main_page_soup of
             Inl e \<Rightarrow> Inl e
           | Inr all_evidence \<Rightarrow>
               if all_evidence = [] then Inr (with_marker company marker_no_evidence)
               else
                 (case extract_cat_products env all_evidence of
                    Inl e \<Rightarrow> Inl e
                  | Inr products_found \<Rightarrow>
                      (case prepare_evidence_description env all_evidence of
                         Inl e \<Rightarrow> Inl e
                       | Inr evidence_description \<Rightarrow>
                           (case join_keywords_found env all_evidence of
                              Inl e \<Rightarrow> Inl e
                            | Inr keywords_found \<Rightarrow>
                                Inr (company
                                  (''cat_evidence'' \<mapsto> VStr evidence_description,
                                   ''cat_product'' \<mapsto> VStr (py_join (asc '', '') products_found),
                                   ''cat_score'' \<mapsto> VInt (int (length all_evidence)),
                                   ''cat_keywords_found'' \<mapsto> VStr keywords_found)))))))"

text \<open>
  \<open>analyze_company_website\<close>.  The test of the web site stands before the \<open>try\<close> block,
  so an exception of \<open>Utils.is_valid_url\<close> leaves the function; an exception of the body is
  caught and gives the record with the error marker.
\<close>

definition analyze_company_website :: "'soup web_env \<Rightarrow> company \<Rightarrow> exn + company" where
  "analyze_company_website env company =
     (let website = dict_get company ''site'' (VStr []) in
      if \<not> truthy website then Inr (with_marker company marker_no_site)
      else case is_valid_url website of
        Inl e \<Rightarrow> Inl e
      | Inr valid \<Rightarrow>
          if \<not> valid then Inr (with_marker company marker_no_site)
          else (case analyze_try_body env company (py_str website) of
                  Inl e \<Rightarrow> Inr (error_record company e)
                | Inr enriched \<Rightarrow> Inr enriched))"

text \<open>
  The loop of \<open>analyze_multiple_companies\<close>: the result of the analysis is appended, and
  when the analysis raises, the \<open>except\<close> clause appends the record with the error marker.
\<close>

fun analyze_loop :: "'soup web_env \<Rightarrow> company list \<Rightarrow> company list \<Rightarrow> company list" where
  "analyze_loop env [] enriched_companies = enriched_companies"
| "analyze_loop env (company # rest) enriched_companies =
     (case analyze_company_website env company of
        Inr enriched_company \<Rightarrow> analyze_loop env rest (enriched_companies @ [enriched_company])
      | Inl e \<Rightarrow> analyze_loop env rest (enriched_companies @ [error_record company e]))"

definition analyze_multiple_companies :: "'soup web_env \<Rightarrow> company list \<Rightarrow> company list" where
  "analyze_multiple_companies env companies = analyze_loop env companies []"

text \<open>The keys that the scorer writes.\<close>

definition evidence_fields :: "string set" where
  "evidence_fields = {''cat_evidence'', ''cat_product'', ''cat_score'', ''cat_keywords_found''}"

text \<open>
  \<open>framed company r\<close>: the record \<open>r\<close> is \<open>company\<close> with evidence fields added.  Every
  other key has the value it has in \<open>company\<close>, the three evidence fields that every
  branch writes are present, and no key outside the evidence fields is new.
\<close>

definition framed :: "company \<Rightarrow> company \<Rightarrow> bool" where
  "framed company r =
     ((\<forall>k. k \<notin> evidence_fields \<longrightarrow> r k = company k)
      \<and> dom company \<union> {''cat_evidence'', ''cat_product'', ''cat_score''} \<subseteq> dom r
      \<and> dom r \<subseteq> dom company \<union> evidence_fields)"

section \<open>main.py: class DataCollectionPipeline\<close>

subsection \<open>filter_companies\<close>

text \<open>
  The list comprehension \<open>[c for c in self.companies if c.get('revenue', 0) >= min_revenue]\<close>.
  The comparison of a value that is not a number with the threshold raises \<open>TypeError\<close>,
  which ends the comprehension.
\<close>

fun filter_companies_loop :: "int \<Rightarrow> company list \<Rightarrow> exn + company list" where
  "filter_companies_loop threshold [] = Inr []"
| "filter_companies_loop threshold (c # cs) =
     (case dict_get c ''revenue'' (VInt 0) of
        VInt revenue \<Rightarrow>
          (case filter_companies_loop threshold cs of
             Inl e \<Rightarrow> Inl e
           | Inr rest \<Rightarrow> Inr (if revenue \<ge> threshold then c # rest else rest))
      | _ \<Rightarrow> Inl (Exn TypeError []))"

definition filter_companies :: "search_params \<Rightarrow> company list \<Rightarrow> exn + company list" where
  "filter_companies config companies = filter_companies_loop (min_revenue config) companies"

subsection \<open>filter_by_cat_evidence\<close>

text \<open>
  The words the filter looks for in the lower-cased evidence: \<open>ne obnaruzheny\<close> (not
  found), \<open>oshibka\<close> (error) and \<open>ne udalos\<close> (failed), and the strong keywords.
\<close>

definition word_not_found :: ustr where
  "word_not_found = 
     [1085, 1077, 32, 1086, 1073, 1085, 1072, 1088, 1091, 1078, 1077, 1085, 1099]"

definition word_error :: ustr where
  "word_error = [1086, 1096, 1080, 1073, 1082, 1072]"

definition word_failed :: ustr where
  "word_failed = [1085, 1077, 32, 1091, 1076, 1072, 1083, 1086, 1089, 1100]"

definition strong_keywords :: "ustr list" where
  "strong_keywords =
     [asc ''trados'', asc ''memoq'', asc ''smartcat'', asc ''memsource'', asc ''phrase'']"

text \<open>
  The local function \<open>has_valid_cat_evidence\<close>.  \<open>lower\<close> is a method of strings only, and
  \<open>cat_score >= 2\<close> needs a number.
\<close>

definition has_valid_cat_evidence :: "company \<Rightarrow> exn + bool" where
  "has_valid_cat_evidence company =
     (case dict_get company ''cat_evidence'' (VStr []) of
        VStr text \<Rightarrow>
          (let evidence = py_lower text;
               cat_score = dict_get company ''cat_score'' (VInt 0)
           in if evidence = [] \<or> py_in word_not_found evidence \<or> py_in word_error evidence
                 \<or> py_in word_failed evidence
              then Inr False
              else case cat_score of
                VInt score \<Rightarrow>
                  if score \<ge> 2 then Inr True
                  else if list_ex (\<lambda>keyword. py_in keyword evidence) strong_keywords
                  then Inr True
                  else Inr False
              | _ \<Rightarrow> Inl (Exn TypeError []))
      | _ \<Rightarrow> Inl (Exn AttributeError []))"

fun filter_by_cat_evidence_loop :: "company list \<Rightarrow> exn + company list" where
  "filter_by_cat_evidence_loop [] = Inr []"
| "filter_by_cat_evidence_loop (c # cs) =
     (case has_valid_cat_evidence c of
        Inl e \<Rightarrow> Inl e
      | Inr keep \<Rightarrow>
          (case filter_by_cat_evidence_loop cs of
             Inl e \<Rightarrow> Inl e
           | Inr rest \<Rightarrow> Inr (if keep then c # rest else rest)))"

definition filter_by_cat_evidence :: "company list \<Rightarrow> exn + company list" where
  "filter_by_cat_evidence companies = filter_by_cat_evidence_loop companies"

section \<open>Evaluation of the character tables\<close>

lemma re_digit_low: "c < 1632 \<Longrightarrow> re_digit c = (48 \<le> c \<and> c \<le> 57)"
  by (auto simp add: re_digit_def nd_zeros_def)

lemma re_space_low:
  "c < 5760 \<Longrightarrow>
     re_space c = ((9 \<le> c \<and> c \<le> 13) \<or> (28 \<le> c \<and> c \<le> 32) \<or> c = 133 \<or> c = 160)"
  by (auto simp add: re_space_def in_ranges_def space_ranges_def)

lemma re_digit_isdigit: "re_digit c \<Longrightarrow> isdigit_char c"
  by (simp add: isdigit_char_def)

lemma digit_value_low: "48 \<le> c \<Longrightarrow> c \<le> 57 \<Longrightarrow> digit_value c = c - 48"
  by (simp add: digit_value_def nd_zeros_def)

section \<open>Rounding to a double\<close>

lemma log2_nat_bounds: "0 < n \<Longrightarrow> 2 ^ log2_nat n \<le> n \<and> n < 2 ^ Suc (log2_nat n)"
proof (induction n rule: log2_nat.induct)
  case (1 n)
  show ?case
  proof (cases "n < 2")
    case True
    with 1(2) have "n = 1" by simp
    then show ?thesis by (simp add: log2_nat.simps)
  next
    case False
    then have "0 < n div 2" by simp
    with 1(1) False have ih: "2 ^ log2_nat (n div 2) \<le> n div 2" "n div 2 < 2 ^ Suc (log2_nat (n div 2))"
      by simp_all
    have l: "log2_nat n = Suc (log2_nat (n div 2))"
      using False by (subst log2_nat.simps) simp
    from ih show ?thesis unfolding l by simp linarith
  qed
qed

lemma binary_exponent_bounds:
  assumes "0 < q"
  shows "2 powi (binary_exponent q) \<le> q" and "q < 2 powi (binary_exponent q + 1)"
proof -
  obtain a b where ab: "quotient_of q = (a, b)" by (cases "quotient_of q")
  then have b: "0 < b" and q: "q = of_int a / of_int b"
    using quotient_of_denom_pos [of q a b] quotient_of_div [of q a b] by simp_all
  have a: "0 < a" using assms b q by (simp add: zero_less_divide_iff)
  define la where "la = log2_nat (nat a)"
  define lb where "lb = log2_nat (nat b)"
  have A: "2 ^ la \<le> nat a" "nat a < 2 ^ Suc la"
    using log2_nat_bounds [of "nat a"] a by (simp_all add: la_def)
  have B: "2 ^ lb \<le> nat b" "nat b < 2 ^ Suc lb"
    using log2_nat_bounds [of "nat b"] b by (simp_all add: lb_def)
  have ra: "rat_of_int a = of_nat (nat a)" using a by simp
  have rb: "rat_of_int b = of_nat (nat b)" using b by simp
  have A': "(2::rat) ^ la \<le> of_int a" "of_int a < (2::rat) ^ Suc la"
    unfolding ra using A by (metis of_nat_le_iff of_nat_numeral of_nat_power, metis of_nat_less_iff of_nat_numeral of_nat_power)
  have B': "(2::rat) ^ lb \<le> of_int b" "of_int b < (2::rat) ^ Suc lb"
    unfolding rb using B by (metis of_nat_le_iff of_nat_numeral of_nat_power, metis of_nat_less_iff of_nat_numeral of_nat_power)
  define e0 where "e0 = int la - int lb"
  have be: "binary_exponent q = (if 2 powi e0 \<le> q then e0 else e0 - 1)"
    by (simp add: binary_exponent_def ab e0_def la_def lb_def)
  have bpos: "(0::rat) < of_int b" using b by simp
  have lo: "2 powi (e0 - 1) \<le> q"
  proof -
    have "(2::rat) powi (e0 - 1) = 2 ^ la / 2 ^ Suc lb"
      by (simp add: e0_def power_int_diff power_int_add)
    also have "\<dots> \<le> of_int a / 2 ^ Suc lb"
      using A'(1) by (simp add: divide_right_mono)
    also have "\<dots> \<le> of_int a / of_int b"
      using B'(2) a bpos by (simp add: frac_le)
    finally show ?thesis by (simp add: q)
  qed
  have hi: "q < 2 powi (e0 + 1)"
  proof -
    have "q = of_int a / of_int b" by (rule q)
    also have "\<dots> < 2 ^ Suc la / of_int b"
      using A'(2) bpos by (simp add: divide_strict_right_mono)
    also have "\<dots> \<le> 2 ^ Suc la / 2 ^ lb"
      using B'(1) by (simp add: frac_le)
    also have "\<dots> = 2 powi (e0 + 1)"
      by (simp add: e0_def power_int_diff power_int_add)
    finally show ?thesis .
  qed
  show "2 powi (binary_exponent q) \<le> q"
    using lo by (simp add: be)
  show "q < 2 powi (binary_exponent q + 1)"
    using hi by (auto simp add: be not_le)
qed

lemma powi_exponent_unique:
  fixes q :: rat
  assumes "2 powi e \<le> q" "q < 2 powi (e + 1)" "2 powi e' \<le> q" "q < 2 powi (e' + 1)"
  shows "e = e'"
proof (rule ccontr)
  assume "e \<noteq> e'"
  then consider "e + 1 \<le> e'" | "e' + 1 \<le> e" by linarith
  then show False
  proof cases
    case 1
    then have "(2::rat) powi (e + 1) \<le> 2 powi e'" by (simp add: power_int_increasing)
    with assms show False by linarith
  next
    case 2
    then have "(2::rat) powi (e' + 1) \<le> 2 powi e" by (simp add: power_int_increasing)
    with assms show False by linarith
  qed
qed

lemma binary_exponent_unique:
  "2 powi e \<le> q \<Longrightarrow> q < 2 powi (e + 1) \<Longrightarrow> binary_exponent q = e"
proof -
  assume a: "2 powi e \<le> q" "q < 2 powi (e + 1)"
  have "0 < (2::rat) powi e" by simp
  with a have "0 < q" by linarith
  from binary_exponent_bounds [OF this] a show ?thesis
    using powi_exponent_unique by blast
qed

lemma round_half_even_of_int [simp]: "round_half_even (of_int m) = m"
  by (simp add: round_half_even_def)

lemma floor_rat_numeral [simp]:
  "\<lfloor>(numeral a :: rat) / numeral b\<rfloor> = numeral a div numeral b"
  using floor_divide_of_int_eq [of "numeral a" "numeral b", where ?'a = rat] by simp

lemma round_half_even_bounds:
  "\<lfloor>x\<rfloor> \<le> round_half_even x" "round_half_even x \<le> \<lfloor>x\<rfloor> + 1"
  by (simp_all add: round_half_even_def Let_def)

lemma round_half_even_le:
  assumes "x \<le> of_int n"
  shows "round_half_even x \<le> n"
proof (cases "\<lfloor>x\<rfloor> = n")
  case True
  then have "of_int n \<le> x" using of_int_floor_le [of x] by simp
  with assms have "x = of_int n" by simp
  then show ?thesis by simp
next
  case False
  moreover have "\<lfloor>x\<rfloor> \<le> n" using assms by (simp add: floor_le_iff) 
  ultimately have "\<lfloor>x\<rfloor> + 1 \<le> n" by simp
  with round_half_even_bounds(2) [of x] show ?thesis by linarith
qed

lemma round_to_double_exact_lt:
  assumes m: "0 < m" "m < 2 ^ 53" and u: "- 1074 \<le> u"
      and lt: "of_int m * 2 powi u < (2::rat) powi 1024"
  shows "round_to_double (of_int m * 2 powi u) = Finite (of_int m * 2 powi u)"
proof -
  define q :: rat where "q = of_int m * 2 powi u"
  have qpos: "0 < q" using m by (simp add: q_def)
  define e where "e = binary_exponent q"
  have eb: "2 powi e \<le> q" "q < 2 powi (e + 1)"
    using binary_exponent_bounds [OF qpos] by (simp_all add: e_def)
  have "rat_of_int m < 2 ^ 53" using m(2) by (metis of_int_less_iff of_int_numeral of_int_power)
  then have "q < 2 ^ 53 * 2 powi u" by (simp add: q_def)
  also have "\<dots> = 2 powi (u + 53)" by (simp add: power_int_add)
  finally have el: "(2::rat) powi e < 2 powi (u + 53)" using eb(1) by simp
  have "e < u + 53"
  proof (rule ccontr)
    assume "\<not> e < u + 53"
    then have "(2::rat) powi (u + 53) \<le> 2 powi e" by (simp add: power_int_increasing)
    with el show False by simp
  qed
  define ue where "ue = max (e - 52) (- 1074)"
  have ue: "ue \<le> u" using \<open>e < u + 53\<close> u by (simp add: ue_def)
  have "q / 2 powi ue = of_int m * 2 powi (u - ue)"
    by (simp add: q_def power_int_diff)
  also have "\<dots> = of_int (m * 2 ^ nat (u - ue))"
    using ue by (simp add: power_int_def)
  finally have x: "q / 2 powi ue = of_int (m * 2 ^ nat (u - ue))" .
  have r: "of_int (round_half_even (q / 2 powi ue)) * 2 powi ue = q"
    unfolding x round_half_even_of_int using x by (simp add: field_simps)
  show ?thesis
    using qpos lt r
    unfolding round_to_double_def q_def [symmetric] e_def [symmetric] ue_def [symmetric] Let_def
    by (simp add: q_def)
qed

lemma is_double_round: "is_double r \<Longrightarrow> round_to_double r = Finite r"
  unfolding is_double_def
  using round_to_double_exact_lt by (auto simp add: round_to_double_def)

lemma is_double_nonneg: "is_double r \<Longrightarrow> 0 \<le> r"
  by (auto simp add: is_double_def)

lemma is_double_of_int: "0 \<le> n \<Longrightarrow> n < 2 ^ 53 \<Longrightarrow> is_double (of_int n)"
proof (cases "n = 0")
  case True then show ?thesis by (simp add: is_double_def)
next
  case False
  assume n: "0 \<le> n" "n < 2 ^ 53"
  have "rat_of_int n < 2 ^ 53" using n(2) by (metis of_int_less_iff of_int_numeral of_int_power)
  also have "\<dots> < 2 powi 1024" by simp
  finally have "rat_of_int n < 2 powi 1024" .
  then show ?thesis
    unfolding is_double_def using False n
    by (intro disjI2 exI [of _ n] exI [of _ 0]) simp
qed

lemma round_to_double_is_double:
  assumes "0 \<le> q" and "round_to_double q = Finite r"
  shows "is_double r"
proof (cases "q = 0")
  case True
  with assms(2) show ?thesis by (simp add: round_to_double_def is_double_def)
next
  case False
  with assms(1) have qpos: "0 < q" by simp
  define e where "e = binary_exponent q"
  define ue where "ue = max (e - 52) (- 1074)"
  define k where "k = round_half_even (q / 2 powi ue)"
  have eb: "2 powi e \<le> q" "q < 2 powi (e + 1)"
    using binary_exponent_bounds [OF qpos] by (simp_all add: e_def)
  have r: "r = of_int k * 2 powi ue" and lt: "r < 2 powi 1024"
    using assms(2) False
    unfolding round_to_double_def e_def [symmetric] ue_def [symmetric] Let_def k_def [symmetric]
    by (auto split: if_splits)
  have xpos: "0 \<le> q / 2 powi ue" using qpos by simp
  then have "0 \<le> \<lfloor>q / 2 powi ue\<rfloor>" by simp
  with round_half_even_bounds(1) [of "q / 2 powi ue"] have k0: "0 \<le> k"
    unfolding k_def by linarith
  have "e + 1 - ue \<le> 53" by (simp add: ue_def)
  have "q / 2 powi ue < 2 powi (e + 1) / 2 powi ue"
    using eb(2) by (simp add: divide_strict_right_mono)
  also have "\<dots> = 2 powi (e + 1 - ue)" by (simp add: power_int_diff)
  also have "\<dots> \<le> 2 powi 53"
    using \<open>e + 1 - ue \<le> 53\<close> by (intro power_int_increasing) simp_all
  finally have "q / 2 powi ue \<le> of_int (2 ^ 53)" by simp
  then have k53: "k \<le> 2 ^ 53" unfolding k_def by (rule round_half_even_le)
  have uel: "- 1074 \<le> ue" by (simp add: ue_def)
  consider "k = 0" | "0 < k" "k < 2 ^ 53" | "k = 2 ^ 53" using k0 k53 by linarith
  then show ?thesis
  proof cases
    case 1
    then show ?thesis by (simp add: r is_double_def)
  next
    case 2
    then show ?thesis
      unfolding is_double_def using r lt uel by blast
  next
    case 3
    have "r = of_int (2 ^ 52) * 2 powi (ue + 1)"
      by (simp add: r 3 power_int_add)
    moreover have "(0::int) < 2 ^ 52" "(2::int) ^ 52 < 2 ^ 53" "- 1074 \<le> ue + 1"
      using uel by simp_all
    ultimately show ?thesis
      unfolding is_double_def using lt by blast
  qed
qed

lemma is_double_floor:
  assumes "is_double r"
  shows "is_double (of_int \<lfloor>r\<rfloor>)"
proof (cases "r = 0")
  case True
  then show ?thesis by (simp add: is_double_def)
next
  case False
  with assms obtain m u where mu: "0 < m" "m < 2 ^ 53" "- 1074 \<le> u"
    "r = of_int m * 2 powi u" "r < 2 powi 1024"
    by (auto simp add: is_double_def)
  show ?thesis
  proof (cases "0 \<le> u")
    case True
    then have "r = of_int (m * 2 ^ nat u)" by (simp add: mu(4) power_int_def)
    then have "rat_of_int \<lfloor>r\<rfloor> = r" by (simp only: floor_of_int)
    with assms show ?thesis by (simp only:)
  next
    case False
    then have "(2::rat) powi u \<le> 2 powi 0" by (intro power_int_increasing) simp_all
    then have "(2::rat) powi u \<le> 1" by simp
    moreover have m': "rat_of_int m < 2 ^ 53"
      using mu(2) by (metis of_int_less_iff of_int_numeral of_int_power)
    ultimately have "r < 2 ^ 53 * 1"
      unfolding mu(4) using mu(1) by (intro mult_less_le_imp_less) simp_all
    then have "r < of_int (2 ^ 53)" by simp
    then have "\<lfloor>r\<rfloor> < 2 ^ 53" by (simp add: floor_less_iff)
    moreover have "0 \<le> \<lfloor>r\<rfloor>" using is_double_nonneg [OF assms] by simp
    ultimately show ?thesis by (rule is_double_of_int [rotated])
  qed
qed

section \<open>Tax IDs\<close>

lemmas inn_eval = rx_m.simps extract_inn_def inn_patterns_def inn_pattern_1_def inn_pattern_2_def
  inn_pattern_3_def inn_label_tail_def inn_digits_def re_search_def group1_def asc_def
  re_digit_low re_space_low lit_ic_def lower_cp_def

lemmas validate_eval = validate_inn_def py_isdigit_def isdigit_char_def asc_def re_digit_low

text \<open>A counted repetition of a class consumes that many characters of the class.\<close>

lemma rx_m_times_cls:
  "st' \<in> set (rx_m (Rep (Cls p) n (Some n)) st) \<Longrightarrow>
     \<exists>w. fst (snd st) = w @ fst (snd st') \<and> length w = n \<and> list_all p w
          \<and> fst st' = fst st + n"
proof (induction n arbitrary: st)
  case 0
  then show ?case by (simp add: rx_m.simps(5))
next
  case (Suc n)
  from Suc.prems obtain s where s: "s \<in> set (rx_m (Cls p) st)"
    and m: "st' \<in> set (rx_m (Rep (Cls p) n (Some n)) s)"
    by (subst (asm) rx_m.simps(5)) (auto split: if_splits)
  from s obtain c cs where c: "fst (snd st) = c # cs" "p c" "s = (Suc (fst st), cs, snd (snd st))"
    by (cases "fst (snd st)") (auto simp add: rx_m.simps(1) split: if_splits)
  from Suc.IH [OF m] obtain w where
    "cs = w @ fst (snd st')" "length w = n" "list_all p w" "fst st' = Suc (fst st) + n"
    by (auto simp add: c(3))
  then show ?case
    using c by (intro exI [of _ "c # w"]) simp
qed

lemma rx_m_inn_digits:
  assumes "st' \<in> set (rx_m inn_digits st)"
  shows "inn_shaped (snd (snd st'))"
proof -
  from assms obtain s where
    s: "s \<in> set (rx_m (Alt (Times 10 (Cls re_digit)) (Times 12 (Cls re_digit))) st)"
    and st': "st' = (fst s, fst (snd s), Some (take (fst s - fst st) (fst (snd st))))"
    by (auto simp add: inn_digits_def rx_m.simps(6))
  from s consider "s \<in> set (rx_m (Times 10 (Cls re_digit)) st)"
    | "s \<in> set (rx_m (Times 12 (Cls re_digit)) st)" by (auto simp add: rx_m.simps(4))
  then show ?thesis
  proof cases
    case 1
    from rx_m_times_cls [OF this] obtain w where
      "fst (snd st) = w @ fst (snd s)" "length w = 10" "list_all re_digit w" "fst s = fst st + 10"
      by auto
    then show ?thesis by (simp add: st' inn_shaped_def)
  next
    case 2
    from rx_m_times_cls [OF this] obtain w where
      "fst (snd st) = w @ fst (snd s)" "length w = 12" "list_all re_digit w" "fst s = fst st + 12"
      by auto
    then show ?thesis by (simp add: st' inn_shaped_def)
  qed
qed

lemma rx_m_cat_last:
  "st' \<in> set (rx_m (Cat a b) st) \<Longrightarrow> \<exists>s. st' \<in> set (rx_m b s)"
  by (auto simp add: rx_m.simps(3))

lemma rx_m_label_tail:
  "st' \<in> set (rx_m inn_label_tail st) \<Longrightarrow> inn_shaped (snd (snd st'))"
  unfolding inn_label_tail_def rx_seq.simps
  by (metis rx_m_cat_last rx_m_inn_digits)

lemma rx_m_inn_patterns:
  assumes "r \<in> set inn_patterns" and "st' \<in> set (rx_m r st)"
  shows "inn_shaped (snd (snd st'))"
proof -
  from assms(1) consider "r = inn_pattern_1" | "r = inn_pattern_2" | "r = inn_pattern_3"
    by (auto simp add: inn_patterns_def)
  then show ?thesis
  proof cases
    case 1
    with assms(2) show ?thesis
      unfolding inn_pattern_1_def rx_seq.simps by (metis rx_m_cat_last rx_m_label_tail)
  next
    case 2
    with assms(2) obtain s where s: "s \<in> set (rx_m inn_digits st)"
      and "st' \<in> set (rx_m (Ahead (Alt (Cls (\<lambda>c. \<not> re_digit c)) Eol)) s)"
      by (auto simp add: inn_pattern_2_def rx_m.simps(3))
    then have "st' = s" by (simp add: rx_m.simps(7) split: if_splits)
    with s show ?thesis by (simp add: rx_m_inn_digits)
  next
    case 3
    with assms(2) show ?thesis
      unfolding inn_pattern_3_def rx_seq.simps by (metis rx_m_cat_last rx_m_label_tail)
  qed
qed

lemma rx_search_from_result:
  "rx_search_from r pos rest = Some m \<Longrightarrow> \<exists>st. snd m \<in> set (rx_m r st)"
proof (induction rest arbitrary: pos)
  case Nil
  then obtain s ss where "rx_m r (pos, [], None) = s # ss" "snd m = s"
    by (auto split: list.splits)
  then show ?case by (metis list.set_intros(1))
next
  case (Cons c cs)
  show ?case
  proof (cases "rx_m r (pos, c # cs, None)")
    case Nil
    with Cons.prems have "rx_search_from r (Suc pos) cs = Some m" by simp
    then show ?thesis by (rule Cons.IH)
  next
    case (Cons s ss)
    with Cons.prems have "snd m = s" by auto
    with Cons show ?thesis by (metis list.set_intros(1))
  qed
qed

lemma extract_inn_loop_shaped:
  "set ps \<subseteq> set inn_patterns \<Longrightarrow> extract_inn_loop ps text = Some v \<Longrightarrow>
     (length v = 10 \<or> length v = 12) \<and> list_all re_digit v"
proof (induction ps)
  case Nil
  then show ?case by simp
next
  case (Cons p ps)
  show ?case
  proof (cases "re_search p text")
    case None
    with Cons show ?thesis by simp
  next
    case (Some m)
    with Cons.prems have g: "group1 m = Some v" by simp
    from Some obtain st where "snd m \<in> set (rx_m p st)"
      unfolding re_search_def using rx_search_from_result by blast
    moreover have "p \<in> set inn_patterns" using Cons.prems by simp
    ultimately have "inn_shaped (snd (snd (snd m)))" by (rule rx_m_inn_patterns [rotated])
    with g show ?thesis by (simp add: group1_def inn_shaped_def)
  qed
qed

lemma extract_inn_validates:
  assumes "extract_inn text = Some v"
  shows "(length v = 10 \<or> length v = 12) \<and> list_all re_digit v \<and> validate_inn (VStr v)"
proof -
  from assms have "extract_inn_loop inn_patterns text = Some v"
    by (simp add: extract_inn_def split: if_splits)
  then have s: "(length v = 10 \<or> length v = 12) \<and> list_all re_digit v"
    by (intro extract_inn_loop_shaped [of inn_patterns]) simp_all
  then have "v \<noteq> []" by auto
  moreover have "list_all isdigit_char v"
    using s by (auto simp add: list_all_iff re_digit_isdigit)
  ultimately show ?thesis
    using s by (auto simp add: validate_inn_def py_isdigit_def)
qed

text \<open>
  What holds of the extractor: a value it returns is a run of ten or twelve decimal digits
  of the text, and \<open>validate_inn\<close> accepts it.
\<close>

text \<open>
  C1.  The claim fails on the code, which accepts a part of a longer run of digits.  A text
  of eleven digits has no run of ten or twelve digits, but the second pattern matches its
  last ten digits (nothing in the pattern asks for a character that is not a digit before
  the match), and \<open>validate_inn\<close> accepts them.  After the label, the first pattern takes
  the first ten digits of a run of any greater length: of a tax ID of twelve digits, and of
  a run of thirteen digits.  A run of five digits is rejected, as the claim says.
\<close>

theorem extract_inn_accepts_part_of_longer_run:
  "extract_inn (asc ''12345678901'') = Some (asc ''2345678901'')
   \<and> validate_inn (VStr (asc ''2345678901''))
   \<and> extract_inn ([1048, 1053, 1053] @ asc '': 123456789012'') = Some (asc ''1234567890'')
   \<and> extract_inn ([1048, 1053, 1053] @ asc '' 1234567890123'') = Some (asc ''1234567890'')
   \<and> validate_inn (VStr (asc ''1234567890''))
   \<and> extract_inn ([1048, 1053, 1053] @ asc '' 12345'') = None"
proof -
  have "extract_inn (asc ''12345678901'') = Some (asc ''2345678901'')"
    by (simp add: inn_eval)
  moreover have "validate_inn (VStr (asc ''2345678901''))"
    by (simp add: validate_eval)
  moreover have
    "extract_inn ([1048, 1053, 1053] @ asc '': 123456789012'') = Some (asc ''1234567890'')"
    by (simp add: inn_eval)
  moreover have
    "extract_inn ([1048, 1053, 1053] @ asc '' 1234567890123'') = Some (asc ''1234567890'')"
    by (simp add: inn_eval)
  moreover have "validate_inn (VStr (asc ''1234567890''))"
    by (simp add: validate_eval)
  moreover have "extract_inn ([1048, 1053, 1053] @ asc '' 12345'') = None"
    by (simp add: inn_eval)
  ultimately show ?thesis by simp
qed

section \<open>Revenue parsing\<close>

lemma digits_of_ascii: "\<forall>c \<in> set (digits_of n). 48 \<le> c \<and> c \<le> 57"
proof (induction n rule: digits_of.induct)
  case (1 n)
  show ?case
  proof (cases "n < 10")
    case True
    then show ?thesis by (subst digits_of.simps) simp
  next
    case False
    have "n mod 10 < 10" by simp
    then have "48 + n mod 10 \<le> 57" by linarith
    with 1 False show ?thesis by (subst digits_of.simps) simp
  qed
qed

lemma digits_of_nonempty: "digits_of n \<noteq> []"
  by (subst digits_of.simps) simp

lemma decimal_value_snoc: "decimal_value (ds @ [c]) = 10 * decimal_value ds + digit_value c"
  by (simp add: decimal_value_def)

lemma decimal_value_digits_of: "decimal_value (digits_of n) = n"
proof (induction n rule: digits_of.induct)
  case (1 n)
  show ?case
  proof (cases "n < 10")
    case True
    then show ?thesis
      by (subst digits_of.simps) (simp add: decimal_value_def digit_value_low)
  next
    case False
    have "n mod 10 < 10" by simp
    then have "digit_value (48 + n mod 10) = n mod 10"
      by (subst digit_value_low) simp_all
    with 1 False show ?thesis
      by (subst digits_of.simps) (simp add: decimal_value_snoc)
  qed
qed

lemma startswith_set: "startswith s p \<Longrightarrow> set p \<subseteq> set s"
  by (induction s p rule: startswith.induct) auto

lemma py_in_set: "py_in needle hay \<Longrightarrow> set needle \<subseteq> set hay"
proof (induction hay)
  case Nil
  then show ?case by simp
next
  case (Cons c hay)
  then show ?case using startswith_set [of "c # hay" needle] by auto
qed

lemma py_in_absent: "c \<in> set needle \<Longrightarrow> c \<notin> set hay \<Longrightarrow> \<not> py_in needle hay"
  using py_in_set by blast

lemma py_lower_digits:
  assumes "\<forall>c \<in> set s. 48 \<le> c \<and> c \<le> 57"
  shows "py_lower s = s"
  using assms by (induction s) (simp_all add: py_lower_def lower_cp_def)

lemma revenue_multiplier_digits:
  assumes "\<forall>c \<in> set s. 48 \<le> c \<and> c \<le> 57"
  shows "revenue_multiplier s = 1"
proof -
  have l: "py_lower s = s" using assms by (rule py_lower_digits)
  have n: "\<And>c. 57 < c \<Longrightarrow> c \<notin> set s" using assms by auto
  have "\<not> py_in word_mln s" by (rule py_in_absent [of 1084]) (simp_all add: word_mln_def n)
  moreover have "\<not> py_in word_mlrd s" by (rule py_in_absent [of 1084]) (simp_all add: word_mlrd_def n)
  moreover have "\<not> py_in word_tys s" by (rule py_in_absent [of 1090]) (simp_all add: word_tys_def n)
  moreover have "\<not> py_in (asc ''million'') s" by (rule py_in_absent [of 109]) (simp_all add: asc_def n)
  moreover have "\<not> py_in (asc ''billion'') s" by (rule py_in_absent [of 98]) (simp_all add: asc_def n)
  moreover have "\<not> py_in (asc ''thousand'') s" by (rule py_in_absent [of 116]) (simp_all add: asc_def n)
  ultimately show ?thesis by (simp add: revenue_multiplier_def l)
qed

lemma replace_char_absent: "old \<notin> set s \<Longrightarrow> replace_char old new s = s"
  by (induction s) (simp_all add: replace_char_def)

lemma parse_revenue_digits:
  assumes "is_double (of_nat n)"
  shows "parse_revenue (digits_of n) = Inr (Some (int n))"
proof -
  let ?s = "digits_of n"
  have asc: "\<forall>c \<in> set ?s. 48 \<le> c \<and> c \<le> 57" by (rule digits_of_ascii)
  have dig: "\<forall>c \<in> set ?s. re_digit c"
    using asc by (auto simp add: re_digit_low)
  have f: "filter (\<lambda>c. re_digit c \<or> c = 46 \<or> c = 44) ?s = ?s"
    using dig by (simp add: filter_id_conv)
  have nc: "replace_char 44 [46] ?s = ?s"
    using asc by (intro replace_char_absent) auto
  have tw: "takeWhile (\<lambda>c. c \<noteq> 46) ?s = ?s" "dropWhile (\<lambda>c. c \<noteq> 46) ?s = []"
    using asc by (auto simp add: takeWhile_eq_all_conv)
  have fl: "float_of_str ?s = Inr (Finite (of_nat n))"
    using dig digits_of_nonempty [of n] is_double_round [OF assms]
    by (simp add: float_of_str_def tw decimal_value_digits_of list_all_iff)
  have "float_times_int (Finite (of_nat n)) 1 = Finite (of_nat n)"
    using is_double_round [OF assms] by (simp add: float_times_int_def)
  then show ?thesis
    using digits_of_nonempty [of n]
    by (simp add: parse_revenue_def f nc fl revenue_multiplier_digits [OF asc] int_of_float_def)
qed

lemma revenue_multiplier_pos: "0 < revenue_multiplier t"
  by (simp add: revenue_multiplier_def Let_def)

lemma float_of_str_is_double:
  assumes "float_of_str s = Inr (Finite r)"
  shows "is_double r"
proof -
  let ?ip = "takeWhile (\<lambda>c. c \<noteq> 46) s"
  let ?fp = "drop 1 (dropWhile (\<lambda>c. c \<noteq> 46) s)"
  let ?q = "rat_of_nat (decimal_value (?ip @ ?fp)) / 10 ^ length ?fp"
  have "round_to_double ?q = Finite r"
    using assms by (simp add: float_of_str_def Let_def split: if_splits)
  moreover have "0 \<le> ?q" by simp
  ultimately show ?thesis by (rule round_to_double_is_double [rotated])
qed

lemma parse_revenue_is_double:
  assumes "parse_revenue t = Inr (Some n)"
  shows "0 \<le> n \<and> is_double (of_int n)"
proof -
  from assms obtain v c where
    c: "float_of_str c = Inr v" and
    n: "int_of_float (float_times_int v (revenue_multiplier t)) = Inr n"
    by (auto simp add: parse_revenue_def Let_def split: if_splits sum.splits)
  from n obtain r where r: "float_times_int v (revenue_multiplier t) = Finite r" "n = \<lfloor>r\<rfloor>"
    by (auto simp add: int_of_float_def split: pyfloat.splits)
  from r(1) obtain r0 where r0: "v = Finite r0" "round_to_double (r0 * of_int (revenue_multiplier t)) = Finite r"
    by (auto simp add: float_times_int_def split: pyfloat.splits)
  have "is_double r0" using c r0(1) float_of_str_is_double by simp
  then have "0 \<le> r0" by (rule is_double_nonneg)
  then have "0 \<le> r0 * of_int (revenue_multiplier t)"
    using revenue_multiplier_pos [of t] by simp
  then have d: "is_double r" using r0(2) by (rule round_to_double_is_double)
  then have "0 \<le> r" by (rule is_double_nonneg)
  then have "0 \<le> n" by (simp add: r(2))
  moreover have "is_double (of_int n)" unfolding r(2) using d by (rule is_double_floor)
  ultimately show ?thesis by simp
qed

lemma parse_revenue_idempotent:
  assumes "parse_revenue t = Inr (Some n)"
  shows "parse_revenue (py_str_int n) = Inr (Some n)"
proof -
  from parse_revenue_is_double [OF assms] have n: "0 \<le> n" "is_double (of_int n)" by simp_all
  then have "is_double (of_nat (nat n))" by simp
  from parse_revenue_digits [OF this] show ?thesis
    using n(1) by (simp add: py_str_int_def)
qed

lemma round_to_double_numeral:
  "(numeral k :: int) < 2 ^ 53 \<Longrightarrow> round_to_double (numeral k) = Finite (numeral k)"
  using is_double_round [OF is_double_of_int [of "numeral k"]] by simp

lemma round_to_double_21_2: "round_to_double (21 / 2) = Finite (21 / 2)"
  using round_to_double_exact_lt [of 21 "- 1"] by simp

lemmas revenue_eval = parse_revenue_def revenue_multiplier_def float_of_str_def
  float_times_int_def int_of_float_def replace_char_def py_lower_def lower_cp_def asc_def
  word_mln_def word_mlrd_def word_tys_def decimal_value_def digit_value_low re_digit_low
  round_to_double_numeral exn_kind_def Let_def

lemma re_digit_rouble: "\<not> re_digit 8381"
  by (simp add: re_digit_def nd_zeros_def)

lemma revenue_example_mln: "parse_revenue (asc ''100 '' @ word_mln @ [32, 8381]) = Inr (Some 100000000)"
  by (simp add: revenue_eval re_digit_rouble)

lemma revenue_example_mlrd: "parse_revenue (asc ''10.5 '' @ word_mlrd) = Inr (Some 10500000000)"
  by (simp add: revenue_eval round_to_double_21_2)

lemma revenue_example_plain: "parse_revenue (asc ''1 234 567 '' @ [8381]) = Inr (Some 1234567)"
  by (simp add: revenue_eval re_digit_rouble)

lemma revenue_example_malformed: "parse_revenue (asc ''N/A'') = Inr None"
  by (simp add: revenue_eval)

lemma startswith_digit_head:
  "48 \<le> d \<Longrightarrow> d \<le> 57 \<Longrightarrow> w \<noteq> [] \<Longrightarrow> \<not> (48 \<le> hd w \<and> hd w \<le> 57) \<Longrightarrow> \<not> startswith (d # s) w"
  by (cases w) auto

lemma py_in_after_digits:
  assumes "\<forall>c \<in> set ds. 48 \<le> c \<and> c \<le> 57" and "w \<noteq> []" and "\<not> (48 \<le> hd w \<and> hd w \<le> 57)"
  shows "py_in w (ds @ rest) = py_in w rest"
  using assms(1)
proof (induction ds)
  case Nil
  show ?case by simp
next
  case (Cons d ds)
  then have "\<not> startswith (d # ds @ rest) w"
    using startswith_digit_head [of d w "ds @ rest"] assms(2,3) by simp
  with Cons show ?case by simp
qed

lemma py_lower_append: "py_lower (a @ b) = py_lower a @ py_lower b"
  by (simp add: py_lower_def)

lemma filter_digits_of: "filter (\<lambda>c. re_digit c \<or> c = 46 \<or> c = 44) (digits_of k) = digits_of k"
  using digits_of_ascii [of k] by (auto simp add: filter_id_conv re_digit_low)

lemma revenue_multiplier_after_digits:
  assumes "\<forall>c \<in> set ds. 48 \<le> c \<and> c \<le> 57"
  shows "revenue_multiplier (ds @ rest) = revenue_multiplier rest"
proof -
  have l: "py_lower (ds @ rest) = ds @ py_lower rest"
    using py_lower_digits [OF assms] by (simp add: py_lower_append)
  have "py_in word_mln (ds @ py_lower rest) = py_in word_mln (py_lower rest)"
    "py_in word_mlrd (ds @ py_lower rest) = py_in word_mlrd (py_lower rest)"
    "py_in word_tys (ds @ py_lower rest) = py_in word_tys (py_lower rest)"
    "py_in (asc ''million'') (ds @ py_lower rest) = py_in (asc ''million'') (py_lower rest)"
    "py_in (asc ''billion'') (ds @ py_lower rest) = py_in (asc ''billion'') (py_lower rest)"
    "py_in (asc ''thousand'') (ds @ py_lower rest) = py_in (asc ''thousand'') (py_lower rest)"
    by (rule py_in_after_digits [OF assms], simp_all add: word_mln_def word_mlrd_def word_tys_def asc_def)+
  then show ?thesis by (simp add: revenue_multiplier_def l Let_def)
qed

lemma parse_revenue_amount_with_unit:
  assumes u: "(u, m) \<in> set unit_words" and small: "int k * m < 2 ^ 53"
  shows "parse_revenue (digits_of k @ 32 # u) = Inr (Some (int k * m))"
proof -
  let ?ds = "digits_of k"
  have asc: "\<forall>c \<in> set ?ds. 48 \<le> c \<and> c \<le> 57" by (rule digits_of_ascii)
  have mpos: "1 \<le> m" using u by (auto simp add: unit_words_def)
  have clean: "filter (\<lambda>c. re_digit c \<or> c = 46 \<or> c = 44) (32 # u) = []"
    using u by (auto simp add: unit_words_def word_mln_def word_mlrd_def word_tys_def asc_def
        re_digit_low)
  have mult: "revenue_multiplier (32 # u) = m"
    using u by (auto simp add: unit_words_def revenue_multiplier_def py_lower_def lower_cp_def
        word_mln_def word_mlrd_def word_tys_def asc_def)
  have f: "filter (\<lambda>c. re_digit c \<or> c = 46 \<or> c = 44) (?ds @ 32 # u) = ?ds"
    using clean filter_digits_of [of k] by (simp del: filter.simps)
  have nc: "replace_char 44 [46] ?ds = ?ds"
    using asc by (intro replace_char_absent) auto
  have "int k * 1 \<le> int k * m" using mpos by (intro mult_left_mono) simp_all
  then have k: "int k < 2 ^ 53" using small by simp
  have dk: "is_double (of_nat k)"
    using is_double_of_int [of "int k"] k by simp
  have dkm: "is_double (rat_of_nat k * rat_of_int m)"
    using is_double_of_int [of "int k * m"] small mpos by simp
  have dig: "\<forall>c \<in> set ?ds. re_digit c" using asc by (auto simp add: re_digit_low)
  have tw: "takeWhile (\<lambda>c. c \<noteq> 46) ?ds = ?ds" "dropWhile (\<lambda>c. c \<noteq> 46) ?ds = []"
    using asc by (auto simp add: takeWhile_eq_all_conv)
  have fl: "float_of_str ?ds = Inr (Finite (of_nat k))"
    using dig digits_of_nonempty [of k] is_double_round [OF dk]
    by (simp add: float_of_str_def tw decimal_value_digits_of list_all_iff)
  have ft: "float_times_int (Finite (of_nat k)) m = Finite (of_int (int k * m))"
    using is_double_round [OF dkm] by (simp add: float_times_int_def)
  have rm: "revenue_multiplier (?ds @ 32 # u) = m"
    using revenue_multiplier_after_digits [OF asc, of "32 # u"] mult by simp
  show ?thesis
    using digits_of_nonempty [of k]
    unfolding parse_revenue_def f nc Let_def rm fl
    by (simp add: ft int_of_float_def del: of_int_mult)
qed

text \<open>
  C3.  \<open>parse_revenue\<close> is unit-aware and idempotent on its own output.  The four examples
  of the specification: \<open>100 mln\<close> with the rouble sign gives 100,000,000, \<open>10.5 mlrd\<close>
  gives 10,500,000,000, \<open>1 234 567\<close> with the rouble sign gives 1,234,567, and \<open>N/A\<close>
  gives \<open>None\<close>.  In general an integer amount followed by a space and a unit word
  (thousand, million, billion, in Russian or English) gives the amount times the factor of
  the unit, as long as the product is below \<open>2 ^ 53\<close>; and whenever \<open>parse_revenue\<close>
  returns an integer \<open>n\<close>, parsing the decimal text of \<open>n\<close> returns \<open>n\<close> again.
\<close>

theorem parse_revenue_units_idempotent:
  "parse_revenue (asc ''100 '' @ word_mln @ [32, 8381]) = Inr (Some 100000000)
   \<and> parse_revenue (asc ''10.5 '' @ word_mlrd) = Inr (Some 10500000000)
   \<and> parse_revenue (asc ''1 234 567 '' @ [8381]) = Inr (Some 1234567)
   \<and> parse_revenue (asc ''N/A'') = Inr None
   \<and> ((u, m) \<in> set unit_words \<longrightarrow> int k * m < 2 ^ 53 \<longrightarrow>
         parse_revenue (digits_of k @ 32 # u) = Inr (Some (int k * m)))
   \<and> (parse_revenue t = Inr (Some n) \<longrightarrow> parse_revenue (py_str_int n) = Inr (Some n))"
  using revenue_example_mln revenue_example_mlrd revenue_example_plain
    revenue_example_malformed parse_revenue_amount_with_unit [of u m k]
    parse_revenue_idempotent [of t n]
  by blast

text \<open>
  The output 10,500,000,000 of the second example parses to itself, and \<open>7\<close> followed by
  the Russian word for thousand gives 7,000.
\<close>

theorem parse_revenue_units_idempotent_witness:
  "parse_revenue (py_str_int 10500000000) = Inr (Some 10500000000)
   \<and> parse_revenue (digits_of 7 @ 32 # word_tys) = Inr (Some 7000)"
proof -
  have u: "(word_tys, 1000) \<in> set unit_words" by (simp add: unit_words_def)
  have s: "int 7 * 1000 < 2 ^ 53" by simp
  show ?thesis
    using parse_revenue_units_idempotent
      [of word_tys 1000 7 "asc ''10.5 '' @ word_mlrd" 10500000000] u s
    by simp
qed

section \<open>Size and revenue buckets\<close>

lemma enrich_company_typed:
  assumes "parsed_types c"
  shows "\<exists>c'. enrich_company c = Inr c' \<and>
     c' ''size_category'' =
       (if truthy (dict_get_none c ''employees'')
        then Some (VStr (size_category_of (int_of (dict_get_none c ''employees''))))
        else c ''size_category'') \<and>
     c' ''revenue_category'' =
       Some (VStr (revenue_category_of (int_of (dict_get c ''revenue'' (VInt 0)))))"
proof -
  obtain r where r: "dict_get c ''revenue'' (VInt 0) = VInt r"
    using assms by (auto simp add: parsed_types_def is_int_def split: pyval.splits)
  obtain s where s: "dict_get c ''site'' (VStr []) = VStr s"
    using assms by (auto simp add: parsed_types_def is_str_def split: pyval.splits)
  have e: "dict_get_none c ''employees'' = VNone \<or> (\<exists>n. dict_get_none c ''employees'' = VInt n)"
    using assms by (auto simp add: parsed_types_def is_int_or_none_def split: pyval.splits)
  show ?thesis
    using e r s by (auto simp add: enrich_company_def Let_def int_of_def)
qed

lemma enrich_typed_categories:
  assumes "\<forall>c \<in> set cs. parsed_types c"
  shows "map (\<lambda>c'. (c' ''size_category'', c' ''revenue_category''))
           (enrich_with_additional_data cs) =
         map (\<lambda>c. (if truthy (dict_get_none c ''employees'')
                    then Some (VStr (size_category_of (int_of (dict_get_none c ''employees''))))
                    else c ''size_category'',
                    Some (VStr (revenue_category_of (int_of (dict_get c ''revenue'' (VInt 0)))))))
           cs"
  using assms
proof (induction cs)
  case Nil
  show ?case by (simp add: enrich_with_additional_data_def)
next
  case (Cons c cs)
  then have "parsed_types c" by simp
  from enrich_company_typed [OF this] obtain c' where
    "enrich_company c = Inr c'"
    "c' ''size_category'' =
       (if truthy (dict_get_none c ''employees'')
        then Some (VStr (size_category_of (int_of (dict_get_none c ''employees''))))
        else c ''size_category'')"
    "c' ''revenue_category'' =
       Some (VStr (revenue_category_of (int_of (dict_get c ''revenue'' (VInt 0)))))"
    by blast
  then show ?case
    using Cons by (simp add: enrich_with_additional_data_def)
qed

lemma size_category_breakpoints:
  "(size_category_of e = asc ''micro'') = (e \<le> 15)"
  "(size_category_of e = asc ''small'') = (16 \<le> e \<and> e \<le> 100)"
  "(size_category_of e = asc ''medium'') = (101 \<le> e \<and> e \<le> 250)"
  "(size_category_of e = asc ''large'') = (251 \<le> e)"
  by (auto simp add: size_category_of_def asc_def)

lemma revenue_category_breakpoints:
  "(revenue_category_of r = asc ''small'') = (r \<le> 499999999)"
  "(revenue_category_of r = asc ''medium'') = (500000000 \<le> r \<and> r \<le> 999999999)"
  "(revenue_category_of r = asc ''large'') = (1000000000 \<le> r)"
  by (auto simp add: revenue_category_of_def asc_def)

text \<open>
  C7.  For records typed as the parser leaves them (\<open>employees\<close> an integer or \<open>None\<close>,
  \<open>revenue\<close> an integer, \<open>site\<close> a string), \<open>enrich_with_additional_data\<close> gives every
  record the revenue bucket of its revenue, and the size bucket of its employee count when
  that count is present (and not zero); otherwise \<open>size_category\<close> stays as it was.  The
  buckets have the inclusive breakpoints of the specification: up to 15 micro, 16 to 100
  small, 101 to 250 medium, from 251 large; up to 499,999,999 small, 500,000,000 to
  999,999,999 medium, from 1,000,000,000 large.
\<close>

theorem bucket_assignment:
  assumes "\<forall>c \<in> set cs. parsed_types c"
  shows "map (\<lambda>c'. (c' ''size_category'', c' ''revenue_category''))
           (enrich_with_additional_data cs) =
         map (\<lambda>c. (if truthy (dict_get_none c ''employees'')
                    then Some (VStr (size_category_of (int_of (dict_get_none c ''employees''))))
                    else c ''size_category'',
                    Some (VStr (revenue_category_of (int_of (dict_get c ''revenue'' (VInt 0)))))))
           cs
       \<and> (size_category_of e = asc ''micro'') = (e \<le> 15)
       \<and> (size_category_of e = asc ''small'') = (16 \<le> e \<and> e \<le> 100)
       \<and> (size_category_of e = asc ''medium'') = (101 \<le> e \<and> e \<le> 250)
       \<and> (size_category_of e = asc ''large'') = (251 \<le> e)
       \<and> (revenue_category_of r = asc ''small'') = (r \<le> 499999999)
       \<and> (revenue_category_of r = asc ''medium'') = (500000000 \<le> r \<and> r \<le> 999999999)
       \<and> (revenue_category_of r = asc ''large'') = (1000000000 \<le> r)"
  using enrich_typed_categories [OF assms] size_category_breakpoints [of e]
    revenue_category_breakpoints [of r]
  by simp

text \<open>
  Two records at breakpoints: 15 employees and a revenue of 499,999,999 give micro and
  small; no employee count and a revenue of 1,000,000,000 give no size bucket and large.
\<close>

theorem bucket_assignment_witness:
  "map (\<lambda>c'. (c' ''size_category'', c' ''revenue_category''))
     (enrich_with_additional_data
        [[''employees'' \<mapsto> VInt 15, ''revenue'' \<mapsto> VInt 499999999, ''site'' \<mapsto> VStr []],
         [''employees'' \<mapsto> VNone, ''revenue'' \<mapsto> VInt 1000000000, ''site'' \<mapsto> VStr []]])
   = [(Some (VStr (asc ''micro'')), Some (VStr (asc ''small''))),
      (None, Some (VStr (asc ''large'')))]
   \<and> size_category_of 16 = asc ''small'' \<and> size_category_of 100 = asc ''small''
   \<and> size_category_of 101 = asc ''medium'' \<and> size_category_of 250 = asc ''medium''
   \<and> size_category_of 251 = asc ''large''
   \<and> revenue_category_of 500000000 = asc ''medium''
   \<and> revenue_category_of 999999999 = asc ''medium''"
proof -
  let ?a = "[''employees'' \<mapsto> VInt 15, ''revenue'' \<mapsto> VInt 499999999, ''site'' \<mapsto> VStr []] :: company"
  let ?b = "[''employees'' \<mapsto> VNone, ''revenue'' \<mapsto> VInt 1000000000, ''site'' \<mapsto> VStr []] :: company"
  have typed: "\<forall>c \<in> set [?a, ?b]. parsed_types c"
    by (simp add: parsed_types_def dict_get_def dict_get_none_def is_int_def is_str_def
        is_int_or_none_def)
  have 1: "size_category_of 15 = asc ''micro''" "revenue_category_of 499999999 = asc ''small''"
    "revenue_category_of 1000000000 = asc ''large''"
    using bucket_assignment [OF typed, of 15 499999999]
      bucket_assignment [OF typed, of 15 1000000000] by simp_all
  have 2: "size_category_of 16 = asc ''small''" "size_category_of 100 = asc ''small''"
    "size_category_of 101 = asc ''medium''" "size_category_of 250 = asc ''medium''"
    "size_category_of 251 = asc ''large''"
    using bucket_assignment [OF typed, of 16 0] bucket_assignment [OF typed, of 100 0]
      bucket_assignment [OF typed, of 101 0] bucket_assignment [OF typed, of 250 0]
      bucket_assignment [OF typed, of 251 0] by simp_all
  have 3: "revenue_category_of 500000000 = asc ''medium''"
    "revenue_category_of 999999999 = asc ''medium''"
    using bucket_assignment [OF typed, of 0 500000000]
      bucket_assignment [OF typed, of 0 999999999] by simp_all
  have 4: "map (\<lambda>c'. (c' ''size_category'', c' ''revenue_category''))
             (enrich_with_additional_data [?a, ?b])
           = [(Some (VStr (asc ''micro'')), Some (VStr (asc ''small''))),
              (None, Some (VStr (asc ''large'')))]"
    using bucket_assignment [OF typed, of 0 0] 1
    by (simp add: dict_get_def dict_get_none_def int_of_def)
  show ?thesis using 2 3 4 by simp
qed

section \<open>The revenue threshold\<close>

lemma filter_companies_loop_typed:
  "\<forall>c \<in> set cs. is_int (dict_get c ''revenue'' (VInt 0)) \<Longrightarrow>
   filter_companies_loop m cs =
     Inr (filter (\<lambda>c. m \<le> int_of (dict_get c ''revenue'' (VInt 0))) cs)"
  by (induction cs) (auto simp add: is_int_def int_of_def split: pyval.splits)

lemma parse_company_data_int_revenue:
  assumes "raw ''revenue'' = Some (VInt r)"
      and "validate_inn (normalize_inn (dict_get raw ''inn'' (VStr [])))"
      and "normalize_text (dict_get raw ''name'' (VStr [])) = Inr name" and "name \<noteq> []"
      and "normalize_okved (dict_get raw ''okved_main'' (VStr [])) = Inr okved"
  shows "(parse_company_data config now raw \<noteq> Map.empty) = (min_revenue config \<le> r)"
    and "min_revenue config \<le> r \<Longrightarrow>
           parse_company_data config now raw ''revenue'' = Some (VInt r)"
proof -
  have rv: "parse_revenue_field (dict_get_none raw ''revenue'') = Inr (Some r)"
    using assms(1) by (simp add: parse_revenue_field_def dict_get_none_def dict_get_def)
  show "(parse_company_data config now raw \<noteq> Map.empty) = (min_revenue config \<le> r)"
    using assms rv by (simp add: parse_company_data_def parse_company_body_def Let_def)
  show "min_revenue config \<le> r \<Longrightarrow>
          parse_company_data config now raw ''revenue'' = Some (VInt r)"
    using assms rv by (simp add: parse_company_data_def parse_company_body_def Let_def)
qed

text \<open>
  C6.  The revenue threshold is an inclusive boundary at both stages.  At the parse stage,
  a raw record with the integer revenue \<open>r\<close> whose other mandatory fields are in order (a
  valid tax ID, a name, an industry code that is a string) is accepted exactly when
  \<open>min_revenue \<le> r\<close>, and then keeps its revenue.  At the filter stage, \<open>filter_companies\<close>
  keeps exactly the records with \<open>min_revenue \<le> revenue\<close>.  So a revenue equal to the
  minimum passes and a revenue one unit below it is rejected.
\<close>

theorem revenue_threshold_boundary:
  assumes "raw ''revenue'' = Some (VInt r)"
      and "validate_inn (normalize_inn (dict_get raw ''inn'' (VStr [])))"
      and "normalize_text (dict_get raw ''name'' (VStr [])) = Inr name" and "name \<noteq> []"
      and "normalize_okved (dict_get raw ''okved_main'' (VStr [])) = Inr okved"
      and "\<forall>c \<in> set cs. is_int (dict_get c ''revenue'' (VInt 0))"
  shows "(parse_company_data config now raw \<noteq> Map.empty) = (min_revenue config \<le> r)
       \<and> (min_revenue config \<le> r \<longrightarrow>
             parse_company_data config now raw ''revenue'' = Some (VInt r))
       \<and> filter_companies config cs =
           Inr (filter (\<lambda>c. min_revenue config \<le> int_of (dict_get c ''revenue'' (VInt 0))) cs)"
  using parse_company_data_int_revenue [OF assms(1-5), of config now]
    filter_companies_loop_typed [OF assms(6), of "min_revenue config"]
  by (simp add: filter_companies_def)

text \<open>
  With the default threshold of 100,000,000: a record with exactly that revenue is parsed
  and kept by the filter, the same record with 99,999,999 is rejected by both.
\<close>

theorem revenue_threshold_boundary_witness:
  "parse_company_data default_search_params []
      [''inn'' \<mapsto> VStr (asc ''7702070139''), ''name'' \<mapsto> VStr (asc ''Acme''),
       ''revenue'' \<mapsto> VInt 100000000] \<noteq> Map.empty
   \<and> parse_company_data default_search_params []
      [''inn'' \<mapsto> VStr (asc ''7702070139''), ''name'' \<mapsto> VStr (asc ''Acme''),
       ''revenue'' \<mapsto> VInt 99999999] = Map.empty
   \<and> filter_companies default_search_params
        [[''inn'' \<mapsto> VStr (asc ''7702070139''), ''name'' \<mapsto> VStr (asc ''Acme''),
          ''revenue'' \<mapsto> VInt 100000000],
         [''inn'' \<mapsto> VStr (asc ''7702070139''), ''name'' \<mapsto> VStr (asc ''Acme''),
          ''revenue'' \<mapsto> VInt 99999999]]
      = Inr [[''inn'' \<mapsto> VStr (asc ''7702070139''), ''name'' \<mapsto> VStr (asc ''Acme''),
              ''revenue'' \<mapsto> VInt 100000000]]"
proof -
  let ?a = "[''inn'' \<mapsto> VStr (asc ''7702070139''), ''name'' \<mapsto> VStr (asc ''Acme''),
             ''revenue'' \<mapsto> VInt 100000000] :: company"
  let ?b = "[''inn'' \<mapsto> VStr (asc ''7702070139''), ''name'' \<mapsto> VStr (asc ''Acme''),
             ''revenue'' \<mapsto> VInt 99999999] :: company"
  have inn: "validate_inn (normalize_inn (VStr (asc ''7702070139'')))"
    by (simp add: inn_eval validate_inn_def normalize_inn_def py_strip_def py_str_def
        py_isdigit_def isdigit_char_def)
  have name: "normalize_text (VStr (asc ''Acme'')) = Inr (asc ''Acme'')"
    by (simp add: rx_m.simps normalize_text_def ws_run_def re_sub_def py_strip_def asc_def re_space_low)
  have okved: "normalize_okved (VStr []) = Inr []"
    by (simp add: normalize_okved_def)
  have ne: "asc ''Acme'' \<noteq> []" by (simp add: asc_def)
  have ints: "\<forall>c \<in> set [?a, ?b]. is_int (dict_get c ''revenue'' (VInt 0))"
    by (simp add: dict_get_def is_int_def)
  have m: "min_revenue default_search_params = 100000000"
    by (simp add: default_search_params_def)
  have a: "(parse_company_data default_search_params [] ?a \<noteq> Map.empty)
           \<and> filter_companies default_search_params [?a, ?b] = Inr [?a]"
    using revenue_threshold_boundary [of ?a 100000000 "asc ''Acme''" "[]" "[?a, ?b]"
        default_search_params "[]"] inn name okved ne ints m
    by (simp add: dict_get_def int_of_def)
  have b: "parse_company_data default_search_params [] ?b = Map.empty"
    using revenue_threshold_boundary [of ?b 99999999 "asc ''Acme''" "[]" "[?a, ?b]"
        default_search_params "[]"] inn name okved ne ints m
    by (simp add: dict_get_def)
  show ?thesis using a b by simp
qed

section \<open>Deduplication: proofs\<close>

lemma dedup_loop_snoc:
  "dedup_loop (cs @ [c]) seen acc =
     dedup_loop cs seen acc @
       (if truthy (inn_of c) \<and> inn_of c \<notin> seen \<union> inn_of ` set cs then [c] else [])"
proof (induction cs arbitrary: seen acc)
  case Nil
  show ?case by (simp add: inn_of_def Let_def)
next
  case (Cons d ds)
  show ?case
  proof (cases "truthy (inn_of d) \<and> inn_of d \<notin> seen")
    case True
    then show ?thesis
      using Cons.IH [of "insert (inn_of d) seen" "acc @ [d]"]
      by (simp add: inn_of_def Let_def)
  next
    case False
    have "inn_of c = inn_of d \<Longrightarrow> \<not> (truthy (inn_of c) \<and> inn_of c \<notin> seen)"
      using False by auto
    then show ?thesis
      using False Cons.IH [of seen acc]
      by (auto simp add: inn_of_def Let_def)
  qed
qed

lemma deduplicate_companies_snoc:
  "deduplicate_companies (cs @ [c]) =
     deduplicate_companies cs @
       (if truthy (inn_of c) \<and> inn_of c \<notin> inn_of ` set cs then [c] else [])"
  unfolding deduplicate_companies_def using dedup_loop_snoc [of cs c "{}" "[]"] by simp

lemma deduplicate_companies_Nil: "deduplicate_companies [] = []"
  by (simp add: deduplicate_companies_def)

lemma take_one_append:
  "take (Suc 0) (xs @ ys) = (if xs = [] then take (Suc 0) ys else take (Suc 0) xs)"
  by (cases xs) simp_all

lemma inn_unseen_iff:
  "(inn_of c \<notin> inn_of ` set cs) = (filter (\<lambda>d. inn_of d = inn_of c) cs = [])"
  by (auto simp add: filter_empty_conv image_iff)

lemma dedup_filter_by_inn:
  "filter (\<lambda>c. inn_of c = t) (deduplicate_companies cs) =
     (if truthy t then take (Suc 0) (filter (\<lambda>c. inn_of c = t) cs) else [])"
proof (induction cs rule: rev_induct)
  case Nil
  show ?case by (simp add: deduplicate_companies_Nil)
next
  case (snoc c cs)
  show ?case
  proof (cases "inn_of c = t")
    case True
    then show ?thesis
      using snoc.IH inn_unseen_iff [of c cs]
      by (simp add: deduplicate_companies_snoc take_one_append Suc_le_eq)
  next
    case False
    then show ?thesis
      using snoc.IH by (simp add: deduplicate_companies_snoc take_one_append)
  qed
qed

lemma dedup_subseq: "subseq (deduplicate_companies cs) cs"
proof (induction cs rule: rev_induct)
  case Nil
  show ?case by (simp add: deduplicate_companies_Nil)
next
  case (snoc c cs)
  then show ?case
    by (auto simp add: deduplicate_companies_snoc intro: subseq_rev_drop_many)
qed

lemma dedup_kept_truthy:
  "c \<in> set (deduplicate_companies cs) \<Longrightarrow> truthy (inn_of c)"
proof (induction cs rule: rev_induct)
  case Nil
  then show ?case by (simp add: deduplicate_companies_Nil)
next
  case (snoc d ds)
  then show ?case
    by (auto simp add: deduplicate_companies_snoc split: if_splits)
qed

text \<open>
  C5.  Deduplication is stable and first-seen-wins.  The output is a subsequence of the
  input, so the kept records stay in their input order and nothing is invented; and for
  every tax ID \<open>t\<close> the output records carrying \<open>t\<close> are exactly the first input record
  carrying \<open>t\<close> (later records with the same tax ID are dropped).  A value that Python
  treats as false (a missing or empty \<open>inn\<close>) is not a tax ID, and no record is kept for it.
\<close>

theorem dedup_first_seen_wins:
  "subseq (deduplicate_companies cs) cs \<and>
   filter (\<lambda>c. inn_of c = t) (deduplicate_companies cs) =
     (if truthy t then take 1 (filter (\<lambda>c. inn_of c = t) cs) else [])"
  using dedup_subseq [of cs] dedup_filter_by_inn [of t cs] by simp

text \<open>
  The example of the specification: records A (tax ID 1), B (tax ID 2) and C (tax ID 1),
  in that order, give A and B.
\<close>

theorem dedup_first_seen_wins_witness:
  "filter (\<lambda>c. inn_of c = VStr [49])
      (deduplicate_companies
        [[''inn'' \<mapsto> VStr [49], ''name'' \<mapsto> VStr [65]],
         [''inn'' \<mapsto> VStr [50], ''name'' \<mapsto> VStr [66]],
         [''inn'' \<mapsto> VStr [49], ''name'' \<mapsto> VStr [67]]])
     = [[''inn'' \<mapsto> VStr [49], ''name'' \<mapsto> VStr [65]]] \<and>
   deduplicate_companies
        [[''inn'' \<mapsto> VStr [49], ''name'' \<mapsto> VStr [65]],
         [''inn'' \<mapsto> VStr [50], ''name'' \<mapsto> VStr [66]],
         [''inn'' \<mapsto> VStr [49], ''name'' \<mapsto> VStr [67]]]
     = [[''inn'' \<mapsto> VStr [49], ''name'' \<mapsto> VStr [65]],
        [''inn'' \<mapsto> VStr [50], ''name'' \<mapsto> VStr [66]]]"
proof -
  let ?A = "[''inn'' \<mapsto> VStr [49], ''name'' \<mapsto> VStr [65]] :: company"
  let ?B = "[''inn'' \<mapsto> VStr [50], ''name'' \<mapsto> VStr [66]] :: company"
  let ?C = "[''inn'' \<mapsto> VStr [49], ''name'' \<mapsto> VStr [67]] :: company"
  have inn: "inn_of ?A = VStr [49]" "inn_of ?B = VStr [50]" "inn_of ?C = VStr [49]"
    by (simp_all add: inn_of_def dict_get_def)
  have 1: "filter (\<lambda>c. inn_of c = VStr [49]) (deduplicate_companies [?A, ?B, ?C]) = [?A]"
    using dedup_first_seen_wins [of "[?A, ?B, ?C]" "VStr [49]"] inn by simp
  have 2: "deduplicate_companies [?A, ?B, ?C] = [?A, ?B]"
    using inn by (simp add: deduplicate_companies_def inn_of_def)
  show ?thesis using 1 2 by simp
qed

text \<open>
  C10.  A record whose \<open>inn\<close> field is missing, \<open>None\<close> or empty is never in the output of
  \<open>deduplicate_companies\<close>, whether or not another record shares that value: every kept
  record has a tax ID that Python treats as true.
\<close>

theorem dedup_drops_records_without_inn:
  "c \<in> set (deduplicate_companies cs) \<Longrightarrow> truthy (inn_of c)"
  by (rule dedup_kept_truthy)

text \<open>A single record with an empty tax ID, and one with no \<open>inn\<close> key at all, are dropped.\<close>

theorem dedup_drops_records_without_inn_witness:
  "[''inn'' \<mapsto> VStr [], ''name'' \<mapsto> VStr [65]]
     \<notin> set (deduplicate_companies
        [[''inn'' \<mapsto> VStr [], ''name'' \<mapsto> VStr [65]],
         [''inn'' \<mapsto> VStr [50], ''name'' \<mapsto> VStr [66]]]) \<and>
   [''name'' \<mapsto> VStr [65]] \<notin> set (deduplicate_companies [[''name'' \<mapsto> VStr [65]]])"
proof -
  let ?E = "[''inn'' \<mapsto> VStr [], ''name'' \<mapsto> VStr [65]] :: company"
  let ?B = "[''inn'' \<mapsto> VStr [50], ''name'' \<mapsto> VStr [66]] :: company"
  let ?M = "[''name'' \<mapsto> VStr [65]] :: company"
  have "\<not> truthy (inn_of ?E)" "\<not> truthy (inn_of ?M)"
    by (simp_all add: inn_of_def dict_get_def)
  then show ?thesis
    using dedup_drops_records_without_inn [of ?E "[?E, ?B]"]
      dedup_drops_records_without_inn [of ?M "[?M]"]
    by blast
qed

section \<open>Keyword confidence\<close>

lemma float_literal_values:
  "float_literal (9 / 10) = Finite (8106479329266893 / 9007199254740992)"
  "float_literal (7 / 10) = Finite (3152519739159347 / 4503599627370496)"
  "float_literal (5 / 10) = Finite (1 / 2)"
proof -
  have e: "binary_exponent (9 / 10) = - 1" "binary_exponent (7 / 10) = - 1"
    "binary_exponent (1 / 2) = - 1"
    by (rule binary_exponent_unique, simp, simp)+
  show "float_literal (9 / 10) = Finite (8106479329266893 / 9007199254740992)"
    by (simp add: float_literal_def round_to_double_def e Let_def round_half_even_def)
  show "float_literal (7 / 10) = Finite (3152519739159347 / 4503599627370496)"
    by (simp add: float_literal_def round_to_double_def e Let_def round_half_even_def)
  show "float_literal (5 / 10) = Finite (1 / 2)"
    by (simp add: float_literal_def round_to_double_def e Let_def round_half_even_def)
qed

lemma float_literals_distinct:
  "distinct [float_literal (9 / 10), float_literal (7 / 10), float_literal (5 / 10)]"
  using float_literal_values by simp

lemmas conf_eval = get_keyword_confidence_def product_keywords_def general_terms_def
  py_lower_def lower_cp_def asc_def

lemma default_keyword_confidences:
  "map get_keyword_confidence (cat_keywords default_search_params) =
   map float_literal
    [7/10, 7/10, 7/10, 5/10, 5/10, 7/10, 5/10, 5/10, 9/10, 9/10, 9/10, 9/10, 9/10, 7/10,
     5/10, 5/10,
     5/10, 7/10, 7/10, 5/10, 5/10, 5/10, 5/10, 5/10, 5/10, 5/10, 5/10, 5/10, 5/10, 5/10,
     5/10, 5/10, 5/10, 7/10, 5/10, 5/10, 5/10,
     5/10, 5/10, 5/10, 5/10, 5/10, 5/10, 7/10, 5/10, 5/10, 5/10, 5/10,
     9/10, 9/10, 9/10, 9/10, 9/10, 9/10, 9/10, 9/10, 7/10, 7/10, 5/10, 5/10, 5/10, 5/10,
     5/10, 5/10, 5/10]"
  by (simp add: conf_eval cat_keywords_def default_search_params_def default_keywords_cat_def
      russian_terms_def english_terms_def product_names_def)

text \<open>
  C4, as the claim states it, fails: \<open>xtm cloud\<close> stands under the product names of the
  combined keyword list, and its weight is 0.7, not 0.9, because it contains \<open>tm\<close>.
\<close>

theorem keyword_confidence_product_counterexample:
  "asc ''xtm cloud'' \<in> set product_names
   \<and> asc ''xtm cloud'' \<in> set (cat_keywords default_search_params)
   \<and> get_keyword_confidence (asc ''xtm cloud'') = float_literal (7 / 10)
   \<and> float_literal (7 / 10) \<noteq> float_literal (9 / 10)"
proof -
  have "asc ''xtm cloud'' \<in> set product_names"
    by (simp add: product_names_def asc_def)
  moreover from this have "asc ''xtm cloud'' \<in> set (cat_keywords default_search_params)"
    by (simp add: cat_keywords_def)
  moreover have "get_keyword_confidence (asc ''xtm cloud'') = float_literal (7 / 10)"
    by (simp add: conf_eval)
  moreover have "float_literal (7 / 10) \<noteq> float_literal (9 / 10)"
    using float_literals_distinct by auto
  ultimately show ?thesis by simp
qed

text \<open>
  C4, amended.  The weight of a keyword is decided by substring tests on its lower-cased
  text: 0.9 when it contains one of \<open>trados\<close>, \<open>memoq\<close>, \<open>smartcat\<close>, \<open>memsource\<close>,
  \<open>phrase\<close>; otherwise 0.7 when it contains one of \<open>translation memory\<close>, \<open>tm\<close>, \<open>tms\<close>
  and the Russian word for localisation; otherwise 0.5.  The three weights differ.  For
  the default combined keyword list the weights are, in the order of the list, the ones
  given: 0.9 for the thirteen keywords that name one of the five products, 0.7 for eleven
  keywords (the three beginning with \<open>xtm\<close> among them), 0.5 for the other forty-one (the
  other product names and most of the general terminology among them).
\<close>

theorem keyword_confidence_by_substring:
  "get_keyword_confidence keyword =
     (if \<exists>product \<in> set product_keywords. py_in product (py_lower keyword)
      then float_literal (9 / 10)
      else if \<exists>term \<in> set general_terms. py_in term (py_lower keyword)
      then float_literal (7 / 10)
      else float_literal (5 / 10))
   \<and> distinct [float_literal (9 / 10), float_literal (7 / 10), float_literal (5 / 10)]
   \<and> map get_keyword_confidence (cat_keywords default_search_params) =
       map float_literal
        [7/10, 7/10, 7/10, 5/10, 5/10, 7/10, 5/10, 5/10, 9/10, 9/10, 9/10, 9/10, 9/10, 7/10,
         5/10, 5/10,
         5/10, 7/10, 7/10, 5/10, 5/10, 5/10, 5/10, 5/10, 5/10, 5/10, 5/10, 5/10, 5/10, 5/10,
         5/10, 5/10, 5/10, 7/10, 5/10, 5/10, 5/10,
         5/10, 5/10, 5/10, 5/10, 5/10, 5/10, 7/10, 5/10, 5/10, 5/10, 5/10,
         9/10, 9/10, 9/10, 9/10, 9/10, 9/10, 9/10, 9/10, 7/10, 7/10, 5/10, 5/10, 5/10, 5/10,
         5/10, 5/10, 5/10]"
proof -
  have "get_keyword_confidence keyword =
     (if \<exists>product \<in> set product_keywords. py_in product (py_lower keyword)
      then float_literal (9 / 10)
      else if \<exists>term \<in> set general_terms. py_in term (py_lower keyword)
      then float_literal (7 / 10)
      else float_literal (5 / 10))"
    by (simp add: get_keyword_confidence_def list_ex_iff)
  then show ?thesis
    using float_literals_distinct default_keyword_confidences by (simp only: simp_thms)
qed

text \<open>
  \<open>SDL Trados\<close> has weight 0.9, \<open>TMX\<close> has weight 0.7 and \<open>wordfast pro\<close> has weight 0.5.
\<close>

theorem keyword_confidence_by_substring_witness:
  "get_keyword_confidence (asc ''SDL Trados'') = float_literal (9 / 10)
   \<and> get_keyword_confidence (asc ''TMX'') = float_literal (7 / 10)
   \<and> get_keyword_confidence (asc ''wordfast pro'') = float_literal (5 / 10)"
proof -
  have a: "get_keyword_confidence (asc ''SDL Trados'') = float_literal (9 / 10)"
    using keyword_confidence_by_substring [of "asc ''SDL Trados''"]
    by (simp add: product_keywords_def general_terms_def py_lower_def lower_cp_def asc_def)
  have b: "get_keyword_confidence (asc ''TMX'') = float_literal (7 / 10)"
    using keyword_confidence_by_substring [of "asc ''TMX''"]
    by (simp add: product_keywords_def general_terms_def py_lower_def lower_cp_def asc_def)
  have c: "get_keyword_confidence (asc ''wordfast pro'') = float_literal (5 / 10)"
    using keyword_confidence_by_substring [of "asc ''wordfast pro''"]
    by (simp add: product_keywords_def general_terms_def py_lower_def lower_cp_def asc_def)
  show ?thesis using a b c by simp
qed

section \<open>The evidence scorer: frame and exceptions\<close>

lemma with_marker_frame: "k \<notin> evidence_fields \<Longrightarrow> with_marker c m k = c k"
  by (auto simp add: with_marker_def evidence_fields_def)

lemma with_marker_dom: "dom (with_marker c m) = dom c \<union> {''cat_evidence'', ''cat_product'', ''cat_score''}"
  by (auto simp add: with_marker_def)

lemma error_record_frame: "k \<notin> evidence_fields \<Longrightarrow> error_record c e k = c k"
  by (simp add: error_record_def with_marker_frame)

lemma error_record_dom: "dom (error_record c e) = dom c \<union> {''cat_evidence'', ''cat_product'', ''cat_score''}"
  by (simp add: error_record_def with_marker_dom)

lemma framed_with_marker: "framed c (with_marker c m)"
  by (auto simp add: framed_def with_marker_frame with_marker_dom evidence_fields_def)

lemma framed_error_record: "framed c (error_record c e)"
  by (simp add: error_record_def framed_with_marker)

lemma analyze_try_body_framed:
  "analyze_try_body env c w = Inr r \<Longrightarrow> framed c r"
  unfolding analyze_try_body_def
  by (auto split: sum.splits option.splits if_splits simp add: framed_with_marker)
    (auto simp add: framed_def evidence_fields_def)

lemma analyze_company_website_framed:
  "analyze_company_website env c = Inr r \<Longrightarrow> framed c r"
  unfolding analyze_company_website_def Let_def
  by (auto split: sum.splits if_splits simp add: framed_with_marker framed_error_record
      analyze_try_body_framed)

lemma analyze_company_website_returns:
  assumes "\<not> truthy (dict_get c ''site'' (VStr [])) \<or> is_str (dict_get c ''site'' (VStr []))"
  shows "\<exists>r. analyze_company_website env c = Inr r"
proof (cases "truthy (dict_get c ''site'' (VStr []))")
  case False
  then show ?thesis by (simp add: analyze_company_website_def)
next
  case True
  with assms obtain s where s: "dict_get c ''site'' (VStr []) = VStr s"
    by (auto simp add: is_str_def split: pyval.splits)
  show ?thesis
    using True by (simp add: analyze_company_website_def s is_valid_url_def split: sum.splits)
qed

lemma analyze_loop_map:
  "analyze_loop env cs acc =
     acc @ map (\<lambda>c. case analyze_company_website env c of Inr r \<Rightarrow> r | Inl e \<Rightarrow> error_record c e) cs"
  by (induction cs arbitrary: acc) (auto split: sum.splits)

lemma example_url_valid: "is_valid_url (VStr (asc ''https://example.com'')) = Inr True"
  by (simp add: rx_m.simps is_valid_url_def re_match_def url_pattern_def url_host_name_def url_host_ip_def
      lits_ic_def lit_ic_def lit_def lower_cp_def alnum_ic_def letter_ic_def asc_def
      re_digit_low re_space_low)

text \<open>
  C9.  For a record whose \<open>site\<close> is a string (or absent, \<open>None\<close> or empty) and whose
  keys are disjoint from the evidence fields, \<open>analyze_company_website\<close> returns a record
  in every branch (no site, fetch failure, no evidence, evidence found, exception in the
  analysis), whatever the network and the helper steps do; in that record every original
  field is present with its value unchanged, and the only new keys are evidence fields.
\<close>

theorem scorer_preserves_original_fields:
  assumes "\<not> truthy (dict_get company ''site'' (VStr []))
           \<or> is_str (dict_get company ''site'' (VStr []))"
      and "dom company \<inter> evidence_fields = {}"
  shows "\<exists>r. analyze_company_website env company = Inr r
             \<and> (\<forall>k \<in> dom company. r k = company k)
             \<and> dom company \<subseteq> dom r
             \<and> dom r \<subseteq> dom company \<union> evidence_fields"
proof -
  from analyze_company_website_returns [OF assms(1)] obtain r where
    r: "analyze_company_website env company = Inr r" by blast
  then have f: "framed company r" by (rule analyze_company_website_framed)
  have "\<forall>k \<in> dom company. r k = company k"
    using f assms(2) by (auto simp add: framed_def)
  moreover have "dom company \<subseteq> dom r" "dom r \<subseteq> dom company \<union> evidence_fields"
    using f by (auto simp add: framed_def)
  ultimately show ?thesis using r by blast
qed

text \<open>
  A record with a valid site, analysed in an environment in which the page is fetched and
  one evidence item is found: the result keeps \<open>inn\<close> and \<open>revenue\<close>.
\<close>

theorem scorer_preserves_original_fields_witness:
  "\<exists>r. analyze_company_website
          \<lparr>fetch_page = (\<lambda>u. Inr (Some ())),
           gather_evidence = (\<lambda>u p. Inr [\<lparr>ev_keyword = asc ''smartcat'', ev_context = asc ''we use smartcat'',
                                            ev_section = asc ''main_page'',
                                            ev_confidence = float_literal (9 / 10)\<rparr>]),
           extract_cat_products = (\<lambda>es. Inr [asc ''Smartcat'']),
           prepare_evidence_description = (\<lambda>es. Inr (asc ''main_page: smartcat'')),
           join_keywords_found = (\<lambda>es. Inr (asc ''smartcat''))\<rparr>
          [''inn'' \<mapsto> VStr (asc ''7702070139''), ''revenue'' \<mapsto> VInt 150000000,
           ''site'' \<mapsto> VStr (asc ''https://example.com'')] = Inr r
       \<and> r ''inn'' = Some (VStr (asc ''7702070139''))
       \<and> r ''revenue'' = Some (VInt 150000000)
       \<and> r ''site'' = Some (VStr (asc ''https://example.com''))"
proof -
  let ?c = "[''inn'' \<mapsto> VStr (asc ''7702070139''), ''revenue'' \<mapsto> VInt 150000000,
             ''site'' \<mapsto> VStr (asc ''https://example.com'')] :: company"
  let ?env = "\<lparr>fetch_page = (\<lambda>u. Inr (Some ())),
           gather_evidence = (\<lambda>u p. Inr [\<lparr>ev_keyword = asc ''smartcat'', ev_context = asc ''we use smartcat'',
                                            ev_section = asc ''main_page'',
                                            ev_confidence = float_literal (9 / 10)\<rparr>]),
           extract_cat_products = (\<lambda>es. Inr [asc ''Smartcat'']),
           prepare_evidence_description = (\<lambda>es. Inr (asc ''main_page: smartcat'')),
           join_keywords_found = (\<lambda>es. Inr (asc ''smartcat''))\<rparr>"
  have 1: "\<not> truthy (dict_get ?c ''site'' (VStr [])) \<or> is_str (dict_get ?c ''site'' (VStr []))"
    by (simp add: dict_get_def is_str_def)
  have 2: "dom ?c \<inter> evidence_fields = {}"
    by (simp add: evidence_fields_def)
  from scorer_preserves_original_fields [OF 1 2, of ?env] obtain r where
    r: "analyze_company_website ?env ?c = Inr r" "\<forall>k \<in> dom ?c. r k = ?c k"
    by blast
  have "r ''inn'' = ?c ''inn''" "r ''revenue'' = ?c ''revenue''" "r ''site'' = ?c ''site''"
    using r(2) by simp_all
  then have "r ''inn'' = Some (VStr (asc ''7702070139''))" "r ''revenue'' = Some (VInt 150000000)"
    "r ''site'' = Some (VStr (asc ''https://example.com''))"
    by simp_all
  with r(1) show ?thesis by blast
qed

text \<open>
  C8.  \<open>analyze_multiple_companies\<close> returns a list with one record per input record,
  whatever the analyses do: the record of a company is the result of its analysis, or the
  record with the error marker when the analysis raises.  An exception raised in the body
  of the analysis is caught there and also gives the record with the error marker.  That
  record has the marker of the analysis error followed by the message of the exception as
  evidence, an empty product and the score 0.
\<close>

theorem batch_analysis_survives_exceptions:
  "analyze_multiple_companies env cs =
     map (\<lambda>c. case analyze_company_website env c of
                 Inr r \<Rightarrow> r
               | Inl e \<Rightarrow> error_record c e) cs
   \<and> length (analyze_multiple_companies env cs) = length cs
   \<and> (is_valid_url (dict_get c ''site'' (VStr [])) = Inr True \<longrightarrow>
       analyze_try_body env c (py_str (dict_get c ''site'' (VStr []))) = Inl e \<longrightarrow>
       analyze_company_website env c = Inr (error_record c e))
   \<and> error_record c e ''cat_evidence'' = Some (VStr (marker_error_prefix @ exn_message e))
   \<and> error_record c e ''cat_product'' = Some (VStr [])
   \<and> error_record c e ''cat_score'' = Some (VInt 0)"
proof -
  have m: "analyze_multiple_companies env cs =
     map (\<lambda>c. case analyze_company_website env c of
                 Inr r \<Rightarrow> r
               | Inl e \<Rightarrow> error_record c e) cs"
    by (simp add: analyze_multiple_companies_def analyze_loop_map)
  have v: "is_valid_url (dict_get c ''site'' (VStr [])) = Inr True \<Longrightarrow>
       analyze_try_body env c (py_str (dict_get c ''site'' (VStr []))) = Inl e \<Longrightarrow>
       analyze_company_website env c = Inr (error_record c e)"
    by (auto simp add: analyze_company_website_def is_valid_url_def split: if_splits)
  have r: "error_record c e ''cat_evidence'' = Some (VStr (marker_error_prefix @ exn_message e))"
    "error_record c e ''cat_product'' = Some (VStr [])"
    "error_record c e ''cat_score'' = Some (VInt 0)"
    by (simp_all add: error_record_def with_marker_def)
  show ?thesis using m v r by simp
qed

text \<open>
  A batch of three records in an environment whose \<open>fetch_page\<close> raises: the first has a
  valid site and gets the error marker with the message of the exception; the second has
  no site and gets the no-site marker; the third has an integer as its site, the test of
  the URL raises \<open>TypeError\<close>, and the loop marks the record.  All three are returned.
\<close>

theorem batch_analysis_survives_exceptions_witness:
  "analyze_multiple_companies
     \<lparr>fetch_page = (\<lambda>u. Inl (Exn OtherError (asc ''boom''))),
      gather_evidence = (\<lambda>u (p::unit). Inr []),
      extract_cat_products = (\<lambda>es. Inr []),
      prepare_evidence_description = (\<lambda>es. Inr []),
      join_keywords_found = (\<lambda>es. Inr [])\<rparr>
     [[''inn'' \<mapsto> VStr (asc ''1''), ''site'' \<mapsto> VStr (asc ''https://example.com'')],
      [''inn'' \<mapsto> VStr (asc ''2'')],
      [''inn'' \<mapsto> VStr (asc ''3''), ''site'' \<mapsto> VInt 5]]
   = [[''inn'' \<mapsto> VStr (asc ''1''), ''site'' \<mapsto> VStr (asc ''https://example.com''),
       ''cat_evidence'' \<mapsto> VStr (marker_error_prefix @ asc ''boom''),
       ''cat_product'' \<mapsto> VStr [], ''cat_score'' \<mapsto> VInt 0],
      [''inn'' \<mapsto> VStr (asc ''2''),
       ''cat_evidence'' \<mapsto> VStr marker_no_site,
       ''cat_product'' \<mapsto> VStr [], ''cat_score'' \<mapsto> VInt 0],
      [''inn'' \<mapsto> VStr (asc ''3''), ''site'' \<mapsto> VInt 5,
       ''cat_evidence'' \<mapsto> VStr (marker_error_prefix @ msg_expected_string),
       ''cat_product'' \<mapsto> VStr [], ''cat_score'' \<mapsto> VInt 0]]"
proof -
  let ?env = "\<lparr>fetch_page = (\<lambda>u. Inl (Exn OtherError (asc ''boom''))),
      gather_evidence = (\<lambda>u (p::unit). Inr []),
      extract_cat_products = (\<lambda>es. Inr []),
      prepare_evidence_description = (\<lambda>es. Inr []),
      join_keywords_found = (\<lambda>es. Inr [])\<rparr>"
  let ?a = "[''inn'' \<mapsto> VStr (asc ''1''), ''site'' \<mapsto> VStr (asc ''https://example.com'')] :: company"
  let ?b = "[''inn'' \<mapsto> VStr (asc ''2'')] :: company"
  let ?c = "[''inn'' \<mapsto> VStr (asc ''3''), ''site'' \<mapsto> VInt 5] :: company"
  have sa: "dict_get ?a ''site'' (VStr []) = VStr (asc ''https://example.com'')"
    by (simp add: dict_get_def)
  have ta: "analyze_try_body ?env ?a (asc ''https://example.com'') = Inl (Exn OtherError (asc ''boom''))"
    by (simp add: analyze_try_body_def)
  note inst = batch_analysis_survives_exceptions
    [of ?env "[?a, ?b, ?c]" ?a "Exn OtherError (asc ''boom'')"]
  have va: "is_valid_url (dict_get ?a ''site'' (VStr [])) = Inr True"
    unfolding sa by (rule example_url_valid)
  have ta': "analyze_try_body ?env ?a (py_str (dict_get ?a ''site'' (VStr [])))
             = Inl (Exn OtherError (asc ''boom''))"
    unfolding sa using ta by (simp add: py_str_def)
  have a: "analyze_company_website ?env ?a = Inr (error_record ?a (Exn OtherError (asc ''boom'')))"
    using inst va ta' by blast
  have b: "analyze_company_website ?env ?b = Inr (with_marker ?b marker_no_site)"
    by (simp add: analyze_company_website_def dict_get_def)
  have c: "analyze_company_website ?env ?c = Inl (Exn TypeError msg_expected_string)"
    by (simp add: analyze_company_website_def dict_get_def is_valid_url_def)
  have m: "analyze_multiple_companies ?env [?a, ?b, ?c] =
     map (\<lambda>c. case analyze_company_website ?env c of
                 Inr r \<Rightarrow> r
               | Inl e \<Rightarrow> error_record c e) [?a, ?b, ?c]"
    using inst by (rule conjunct1)
  have ra: "error_record ?a (Exn OtherError (asc ''boom'')) =
      ?a(''cat_evidence'' \<mapsto> VStr (marker_error_prefix @ asc ''boom''),
         ''cat_product'' \<mapsto> VStr [], ''cat_score'' \<mapsto> VInt 0)"
    by (simp add: error_record_def with_marker_def exn_message_def)
  have rb: "with_marker ?b marker_no_site =
      ?b(''cat_evidence'' \<mapsto> VStr marker_no_site,
         ''cat_product'' \<mapsto> VStr [], ''cat_score'' \<mapsto> VInt 0)"
    by (simp add: with_marker_def)
  have rc: "error_record ?c (Exn TypeError msg_expected_string) =
      ?c(''cat_evidence'' \<mapsto> VStr (marker_error_prefix @ msg_expected_string),
         ''cat_product'' \<mapsto> VStr [], ''cat_score'' \<mapsto> VInt 0)"
    by (simp add: error_record_def with_marker_def exn_message_def)
  show ?thesis
    unfolding m by (simp only: list.map a b c sum.case ra rb rc)
qed

section \<open>The evidence filter\<close>

lemmas cat_eval = has_valid_cat_evidence_def dict_get_def py_lower_def lower_cp_def asc_def
  word_not_found_def word_error_def word_failed_def strong_keywords_def Let_def

lemma startswith_append: "startswith s p \<Longrightarrow> startswith (s @ t) p"
  by (induction s p rule: startswith.induct) simp_all

lemma has_valid_cat_evidence_typed:
  assumes "dict_get company ''cat_evidence'' (VStr []) = VStr text"
      and "dict_get company ''cat_score'' (VInt 0) = VInt score"
  shows "has_valid_cat_evidence company =
     Inr (py_lower text \<noteq> []
          \<and> \<not> py_in word_not_found (py_lower text)
          \<and> \<not> py_in word_error (py_lower text)
          \<and> \<not> py_in word_failed (py_lower text)
          \<and> (2 \<le> score \<or> list_ex (\<lambda>keyword. py_in keyword (py_lower text)) strong_keywords))"
  using assms by (simp add: has_valid_cat_evidence_def Let_def)

lemma marked_records_rejected:
  "has_valid_cat_evidence (with_marker company marker_no_site) = Inr False"
  "has_valid_cat_evidence (with_marker company marker_fetch_failed) = Inr False"
  "has_valid_cat_evidence (with_marker company marker_no_evidence) = Inr False"
  by (simp_all add: with_marker_def cat_eval marker_no_site_def marker_fetch_failed_def
      marker_no_evidence_def)

lemma error_records_rejected:
  "has_valid_cat_evidence (error_record company e) = Inr False"
proof -
  have "startswith (py_lower marker_error_prefix) word_error"
    by (simp add: marker_error_prefix_def word_error_def py_lower_def lower_cp_def)
  then have "startswith (py_lower (marker_error_prefix @ exn_message e)) word_error"
    by (simp add: py_lower_def startswith_append)
  moreover have "py_lower (marker_error_prefix @ exn_message e) \<noteq> []"
    by (simp add: py_lower_def marker_error_prefix_def)
  ultimately have "py_in word_error (py_lower (marker_error_prefix @ exn_message e))"
    by (cases "py_lower (marker_error_prefix @ exn_message e)") simp_all
  then show ?thesis
    by (simp add: error_record_def with_marker_def has_valid_cat_evidence_def dict_get_def
        Let_def)
qed

text \<open>
  C2, as the claim states it, fails: a record with \<open>cat_score = 0\<close> whose evidence text is
  \<open>Smartcat\<close> is accepted, because the strong keywords are looked for whenever the score is
  below 2.
\<close>

theorem evidence_filter_score_zero_counterexample:
  "has_valid_cat_evidence
     [''cat_evidence'' \<mapsto> VStr (asc ''Smartcat''), ''cat_score'' \<mapsto> VInt 0] = Inr True"
  by (simp add: cat_eval)

text \<open>
  C2, amended.  For a record whose evidence is a string and whose score is an integer,
  \<open>has_valid_cat_evidence\<close> accepts exactly when the lower-cased evidence text is not empty,
  contains none of the three words the filter checks (not found, error, failed), and the
  score is at least 2 or the text contains one of the strong product keywords; the score
  plays no other part, so the keywords also decide at score 0.  The filter does not look
  for the no-site marker, but every record that the scorer marks (no site, fetch failed,
  no evidence, analysis error) is rejected.
\<close>

theorem evidence_filter_accepts_iff:
  assumes "dict_get company ''cat_evidence'' (VStr []) = VStr text"
      and "dict_get company ''cat_score'' (VInt 0) = VInt score"
  shows "has_valid_cat_evidence company =
     Inr (py_lower text \<noteq> []
          \<and> \<not> py_in word_not_found (py_lower text)
          \<and> \<not> py_in word_error (py_lower text)
          \<and> \<not> py_in word_failed (py_lower text)
          \<and> (2 \<le> score \<or> list_ex (\<lambda>keyword. py_in keyword (py_lower text)) strong_keywords))
     \<and> has_valid_cat_evidence (with_marker other marker_no_site) = Inr False
     \<and> has_valid_cat_evidence (with_marker other marker_fetch_failed) = Inr False
     \<and> has_valid_cat_evidence (with_marker other marker_no_evidence) = Inr False
     \<and> has_valid_cat_evidence (error_record other e) = Inr False"
  using has_valid_cat_evidence_typed [OF assms] marked_records_rejected [of other]
    error_records_rejected [of other e]
  by simp

text \<open>
  Score 1 with \<open>smartcat\<close> in the text is accepted; score 1 with only the generic term
  \<open>translation memory\<close> is rejected; score 2 with the generic term is accepted.
\<close>

theorem evidence_filter_accepts_iff_witness:
  "has_valid_cat_evidence
     [''cat_evidence'' \<mapsto> VStr (asc ''Uses Smartcat''), ''cat_score'' \<mapsto> VInt 1] = Inr True
   \<and> has_valid_cat_evidence
     [''cat_evidence'' \<mapsto> VStr (asc ''translation memory''), ''cat_score'' \<mapsto> VInt 1] = Inr False
   \<and> has_valid_cat_evidence
     [''cat_evidence'' \<mapsto> VStr (asc ''translation memory''), ''cat_score'' \<mapsto> VInt 2] = Inr True"
proof -
  let ?a = "[''cat_evidence'' \<mapsto> VStr (asc ''Uses Smartcat''), ''cat_score'' \<mapsto> VInt 1] :: company"
  let ?b = "[''cat_evidence'' \<mapsto> VStr (asc ''translation memory''), ''cat_score'' \<mapsto> VInt 1] :: company"
  let ?c = "[''cat_evidence'' \<mapsto> VStr (asc ''translation memory''), ''cat_score'' \<mapsto> VInt 2] :: company"
  have a: "has_valid_cat_evidence ?a = Inr True"
    using evidence_filter_accepts_iff [of ?a "asc ''Uses Smartcat''" 1 Map.empty "Exn OtherError []"]
    by (simp add: dict_get_def py_lower_def lower_cp_def asc_def word_not_found_def
        word_error_def word_failed_def strong_keywords_def)
  have b: "has_valid_cat_evidence ?b = Inr False"
    using evidence_filter_accepts_iff [of ?b "asc ''translation memory''" 1 Map.empty "Exn OtherError []"]
    by (simp add: dict_get_def py_lower_def lower_cp_def asc_def word_not_found_def
        word_error_def word_failed_def strong_keywords_def)
  have c: "has_valid_cat_evidence ?c = Inr True"
    using evidence_filter_accepts_iff [of ?c "asc ''translation memory''" 2 Map.empty "Exn OtherError []"]
    by (simp add: dict_get_def py_lower_def lower_cp_def asc_def word_not_found_def
        word_error_def word_failed_def strong_keywords_def)
  show ?thesis using a b c by simp
qed

end
